theory Spec2Isabelle
  imports Main "HOL-Library.Sublist"
begin

section \<open>JavaScript values used by the two commands\<close>

text \<open>
  A rejected promise or a thrown exception is a value of \<open>error\<close>: \<open>Error\<close> is
  \<^verbatim>\<open>new Error(msg)\<close>, \<open>TypeError\<close> is what reading a property of \<^verbatim>\<open>undefined\<close>
  raises. The collaborators (web3, APM, ENS, the transaction executor) reject with
  errors of their own, which are values of the same type.
\<close>

datatype error = Error string | TypeError string

text \<open>
  A value that may be \<^verbatim>\<open>undefined\<close> is an \<open>option\<close>. \<^verbatim>\<open>a || b\<close> and the
  truthiness test of \<^verbatim>\<open>&&\<close> on such a string: \<^verbatim>\<open>undefined\<close> and the empty string
  are falsy, every other string is truthy.
\<close>

definition truthy :: "string option \<Rightarrow> bool" where
  "truthy v = (case v of None \<Rightarrow> False | Some s \<Rightarrow> s \<noteq> [])"

definition js_or :: "string option \<Rightarrow> string option \<Rightarrow> string option" where
  "js_or a b = (if truthy a then a else b)"

text \<open>
  \<^verbatim>\<open>String.prototype.toLowerCase\<close> on the ASCII letters (the alphabet of a hex
  address); every other character is kept.
\<close>

definition lowerChar :: "char \<Rightarrow> char" where
  "lowerChar c =
     (case map_of (zip ''ABCDEFGHIJKLMNOPQRSTUVWXYZ'' ''abcdefghijklmnopqrstuvwxyz'') c of
        None \<Rightarrow> c
      | Some d \<Rightarrow> d)"

definition toLowerCase :: "string \<Rightarrow> string" where
  "toLowerCase s = map lowerChar s"

text \<open>\<^verbatim>\<open>const addressesEqual = (a, b) => a.toLowerCase() === b.toLowerCase()\<close>\<close>

definition addressesEqual :: "string \<Rightarrow> string \<Rightarrow> bool" where
  "addressesEqual a b = (toLowerCase a = toLowerCase b)"

text \<open>
  The constants the install command imports from \<^verbatim>\<open>../../util\<close>. That module is not
  among the sources, so the three strings are parameters of the model.
\<close>

record util =
  ANY_ENTITY :: string
  NO_MANAGER :: string
  ZERO_ADDRESS :: string

section \<open>The dao argument: \<^verbatim>\<open>/0x[a-fA-F0-9]{40}/.test(dao)\<close>\<close>

definition isHexDigit :: "char \<Rightarrow> bool" where
  "isHexDigit c = (c \<in> set ''abcdefABCDEF0123456789'')"

text \<open>The pattern matched at the start of the string: \<^verbatim>\<open>0x\<close>, then forty hex digits.\<close>

fun matchHere :: "string \<Rightarrow> bool" where
  "matchHere (a # b # rest) =
     (a = CHR ''0'' \<and> b = CHR ''x'' \<and> 40 \<le> length rest \<and> list_all isHexDigit (take 40 rest))"
| "matchHere _ = False"

text \<open>The regular expression has no anchor: \<^verbatim>\<open>test\<close> tries every start position.\<close>

fun daoRegexTest :: "string \<Rightarrow> bool" where
  "daoRegexTest [] = False"
| "daoRegexTest (c # cs) = (matchHere (c # cs) \<or> daoRegexTest cs)"

text \<open>
  \<^verbatim>\<open>dao = /0x[a-fA-F0-9]{40}/.test(dao) ? dao : await resolveEnsDomain(dao, ...)\<close>.
  The ENS resolver is a collaborator: a function from the domain to the address it
  resolves to, or the error it rejects with. The second component lists the domains
  handed to the resolver.
\<close>

definition resolveDao :: "(string \<Rightarrow> error + string) \<Rightarrow> string \<Rightarrow> (error + string) \<times> string list" where
  "resolveDao resolveEnsDomain dao =
     (if daoRegexTest dao then (Inr dao, []) else (resolveEnsDomain dao, [dao]))"

text \<open>
  The claim's wording, for comparison with the matcher: the string has a substring made
  of \<^verbatim>\<open>0x\<close> and forty hex digits.
\<close>

definition hasAddressSubstring :: "string \<Rightarrow> bool" where
  "hasAddressSubstring s =
     (\<exists>pre h post. s = pre @ ''0x'' @ h @ post \<and> length h = 40 \<and> list_all isHexDigit h)"

section \<open>The task pipeline\<close>

text \<open>
  What one step did to the state it was given: it ran to its end, it called
  \<^verbatim>\<open>task.skip(reason)\<close> and returned, or it threw. Each outcome carries the state the
  step left behind, so a change made before a skip or a throw stays visible.
\<close>

datatype 'w outcome = Completed 'w | Skipped string 'w | Threw error 'w

record 'w step =
  title :: string
  enabled :: "'w \<Rightarrow> bool"
  task :: "'w \<Rightarrow> 'w outcome"

text \<open>
  Modelled from the spec: the runner behind \<^verbatim>\<open>new TaskList([...]).run()\<close> is the
  \<^verbatim>\<open>listr\<close> package, which is not among the sources. Following section 4.1 of the
  specification: for each step, in order, the \<open>enabled\<close> predicate is evaluated on the
  current context and a disabled step is passed over; otherwise the action runs on the
  context; a step that skips itself is not a failure; a step that throws aborts the run,
  the remaining steps do not execute and the error goes to the caller. The second
  component lists, in the order of execution, the positions of the steps whose action
  was run; the first is what the returned promise settles to.
\<close>

fun runTasks :: "'w step list \<Rightarrow> nat \<Rightarrow> 'w \<Rightarrow> (error + 'w) \<times> nat list" where
  "runTasks [] i w = (Inr w, [])"
| "runTasks (s # ss) i w =
     (if \<not> enabled s w then runTasks ss (Suc i) w
      else (case task s w of
              Threw e w' \<Rightarrow> (Inl e, [i])
            | Completed w' \<Rightarrow> (case runTasks ss (Suc i) w' of (r, tr) \<Rightarrow> (r, i # tr))
            | Skipped m w' \<Rightarrow> (case runTasks ss (Suc i) w' of (r, tr) \<Rightarrow> (r, i # tr))))"

definition run :: "'w step list \<Rightarrow> 'w \<Rightarrow> (error + 'w) \<times> nat list" where
  "run steps w = runTasks steps 0 w"

section \<open>The install command\<close>

subsection \<open>Data\<close>

datatype jsval = JUndefined | JBool bool | JNum int | JStr string

record abi_input =
  in_name :: string
  in_type :: string

record abi_entry =
  abi_type :: string
  abi_name :: "string option"
  abi_inputs :: "abi_input list"

record role =
  bytes :: string

record app_repo =
  appId :: string
  contractAddress :: string
  abi :: "abi_entry list"
  roles :: "role list option"

record log_entry =
  topics :: "string list"
  address :: string
  data :: string

record tx_receipt =
  logs :: "log_entry list"

text \<open>The descriptions of the steps of a transaction path.\<close>

type_synonym transaction_path = "string list"

text \<open>The pipeline context of the install command; a field never assigned is \<open>None\<close>.\<close>

record install_context =
  repo :: "app_repo option"
  notInitialized :: bool
  transactionPath :: "transaction_path option"
  receipt :: "tx_receipt option"
  appAddress :: "string option"
  accounts :: "string list option"

text \<open>
  What a \<^verbatim>\<open>getTransactionPath\<close> closure asks of the wrapper:
  \<^verbatim>\<open>wrapper.getTransactionPath(dao, method, fnArgs)\<close> or
  \<^verbatim>\<open>wrapper.getACLTransactionPath(method, params)\<close>.
\<close>

datatype tx_request =
    TransactionPath string string "jsval list"
  | ACLTransactionPath string "jsval list"

text \<open>
  The state a step works on: the context, and the calls of \<^verbatim>\<open>execTask(dao, ...)\<close>
  made so far, each with the DAO and the request of its closure.
\<close>

record install_world =
  ctx :: install_context
  execTasks :: "(string \<times> tx_request) list"

text \<open>
  The collaborators of the install command. A call that returns a promise is a result
  \<open>error + 'a\<close>: \<open>Inl\<close> is the rejection.
\<close>

record install_env =
  chalk_bold :: "string \<Rightarrow> string"
  resolveEnsDomain :: "string \<Rightarrow> error + string"
  getVersion :: "string \<Rightarrow> string option \<Rightarrow> error + app_repo"
  APP_BASES_NAMESPACE :: "error + string"
  getApp :: "string \<Rightarrow> string \<Rightarrow> error + string"
  encodeInitPayload :: "abi_entry list \<Rightarrow> string \<Rightarrow> jsval list \<Rightarrow> error + string"
  execTask :: "string \<Rightarrow> tx_request \<Rightarrow> error + transaction_path \<times> tx_receipt"
  kernelABI :: "abi_entry list"
  sha3 :: "string \<Rightarrow> string"
  decodeLog :: "abi_input list \<Rightarrow> string \<Rightarrow> error + (string \<Rightarrow> string option)"
  getAccounts :: "error + string list"

record install_args =
  apmRepo :: string
  apmRepoVersion :: "string option"
  appInit :: string
  appInitArgs :: "jsval list"
  setPermissions :: "string option"

subsection \<open>Helpers\<close>

text \<open>\<^verbatim>\<open>Array.prototype.join\<close> on strings.\<close>

fun join :: "string \<Rightarrow> string list \<Rightarrow> string" where
  "join sep [] = []"
| "join sep [x] = x"
| "join sep (x # y # ys) = x @ sep @ join sep (y # ys)"

text \<open>A template literal prints \<^verbatim>\<open>undefined\<close> for a missing value.\<close>

definition showStr :: "string option \<Rightarrow> string" where
  "showStr v = (case v of None \<Rightarrow> ''undefined'' | Some s \<Rightarrow> s)"

definition optStr :: "string option \<Rightarrow> jsval" where
  "optStr v = (case v of None \<Rightarrow> JUndefined | Some s \<Rightarrow> JStr s)"

text \<open>\<^verbatim>\<open>topics[0] === logTopic\<close>: the first element of an empty array is \<^verbatim>\<open>undefined\<close>.\<close>

definition firstTopicIs :: "string list \<Rightarrow> string \<Rightarrow> bool" where
  "firstTopicIs ts t = (case ts of [] \<Rightarrow> False | x # _ \<Rightarrow> x = t)"

text \<open>
  \<^verbatim>\<open>Promise.all\<close> rejects as soon as one of its promises rejects. The model has no
  clock: of several rejections it reports the first in list order.
\<close>

fun firstRejection :: "(error + 'a) list \<Rightarrow> error option" where
  "firstRejection [] = None"
| "firstRejection (Inl e # rs) = Some e"
| "firstRejection (Inr v # rs) = firstRejection rs"

text \<open>
  Modelled from the spec: \<^verbatim>\<open>execTask\<close> of \<^verbatim>\<open>./utils/execHandler\<close> is not among the
  sources. The specification's transaction executor builds, signs and submits the
  transaction of the request and returns a receipt; the handler of the install command
  reads \<^verbatim>\<open>ctx.transactionPath\<close> and \<^verbatim>\<open>ctx.receipt\<close> afterwards. Returned from a step,
  the task list it yields runs on the context of the pipeline.
\<close>

definition execTaskOnCtx :: "install_env \<Rightarrow> string \<Rightarrow> tx_request \<Rightarrow> install_world \<Rightarrow> install_world outcome" where
  "execTaskOnCtx env dao req w =
     (let w1 = w\<lparr>execTasks := execTasks w @ [(dao, req)]\<rparr> in
      case execTask env dao req of
        Inl e \<Rightarrow> Threw e w1
      | Inr (path, rcpt) \<Rightarrow>
          Completed (w1\<lparr>ctx := (ctx w1)\<lparr>transactionPath := Some path, receipt := Some rcpt\<rparr>\<rparr>))"

subsection \<open>The five steps\<close>

text \<open>
  Modelled from the spec: \<^verbatim>\<open>getRepoTask.task\<close> of \<^verbatim>\<open>./utils/getRepoTask\<close> is not among
  the sources. The specification's repo resolver, given a package name and version,
  returns the contract ABI, the address and the role metadata; the later steps read
  them from \<^verbatim>\<open>ctx.repo\<close>.
\<close>

definition getRepoTask :: "install_env \<Rightarrow> install_args \<Rightarrow> install_world \<Rightarrow> install_world outcome" where
  "getRepoTask env args w =
     (case getVersion env (apmRepo args) (apmRepoVersion args) of
        Inl e \<Rightarrow> Threw e w
      | Inr r \<Rightarrow> Completed (w\<lparr>ctx := (ctx w)\<lparr>repo := Some r\<rparr>\<rparr>))"

definition versionMismatchMessage :: "string \<Rightarrow> string \<Rightarrow> string" where
  "versionMismatchMessage apmRepoName currentBase =
     ''Cannot install app on a different version. Currently installed version for ''
     @ apmRepoName @ '' in the DAO is '' @ currentBase @ [CHR 0x0A]
     @ '' Please upgrade using 'dao upgrade' first or install a different version.''"

text \<open>The step titled \<^verbatim>\<open>Checking installed version\<close>.\<close>

definition checkInstalledVersion :: "util \<Rightarrow> install_env \<Rightarrow> install_args \<Rightarrow> install_world \<Rightarrow> install_world outcome" where
  "checkInstalledVersion u env args w =
     (case APP_BASES_NAMESPACE env of
        Inl e \<Rightarrow> Threw e w
      | Inr basesNamespace \<Rightarrow>
          (case repo (ctx w) of
             None \<Rightarrow> Threw (TypeError ''Cannot read property 'appId' of undefined'') w
           | Some r \<Rightarrow>
               (case getApp env basesNamespace (appId r) of
                  Inl e \<Rightarrow> Threw e w
                | Inr currentBase \<Rightarrow>
                    if currentBase = ZERO_ADDRESS u
                    then Skipped (''Installing the first instance of '' @ apmRepo args @ '' in DAO'') w
                    else if \<not> addressesEqual currentBase (contractAddress r)
                    then Threw (Error (versionMismatchMessage (apmRepo args) currentBase)) w
                    else Completed w)))"

text \<open>The step titled \<^verbatim>\<open>Deploying app instance\<close>.\<close>

definition deployAppInstance :: "install_env \<Rightarrow> install_args \<Rightarrow> string \<Rightarrow> install_world \<Rightarrow> install_world outcome" where
  "deployAppInstance env args dao w =
     (case repo (ctx w) of
        None \<Rightarrow> Threw (TypeError ''Cannot read property 'abi' of undefined'') w
      | Some r \<Rightarrow>
          (case encodeInitPayload env (abi r) (appInit args) (appInitArgs args) of
             Inl e \<Rightarrow> Threw e w
           | Inr initPayload \<Rightarrow>
               (let w1 = (if initPayload = ''0x''
                          then w\<lparr>ctx := (ctx w)\<lparr>notInitialized := True\<rparr>\<rparr> else w);
                    fnArgs = [JStr (appId r), JStr (contractAddress r), JStr initPayload, JBool False]
                in execTaskOnCtx env dao (TransactionPath dao ''newAppInstance'' fnArgs) w1)))"

definition isNewAppProxyEvent :: "abi_entry \<Rightarrow> bool" where
  "isNewAppProxyEvent e = (abi_type e = ''event'' \<and> abi_name e = Some ''NewAppProxy'')"

definition logSignature :: "abi_entry \<Rightarrow> string" where
  "logSignature logABI =
     showStr (abi_name logABI) @ ''('' @ join '','' (map in_type (abi_inputs logABI)) @ '')''"

definition isDeployLog :: "string \<Rightarrow> string \<Rightarrow> log_entry \<Rightarrow> bool" where
  "isDeployLog logTopic dao l = (firstTopicIs (topics l) logTopic \<and> addressesEqual dao (address l))"

text \<open>The step titled \<^verbatim>\<open>Fetching deployed app\<close>.\<close>

definition fetchDeployedApp :: "install_env \<Rightarrow> string \<Rightarrow> install_world \<Rightarrow> install_world outcome" where
  "fetchDeployedApp env dao w =
     (case find isNewAppProxyEvent (kernelABI env) of
        None \<Rightarrow> Threw (Error ''Kernel ABI in aragon.js doesnt contain NewAppProxy log'') w
      | Some logABI \<Rightarrow>
          (let logTopic = sha3 env (logSignature logABI) in
           case receipt (ctx w) of
             None \<Rightarrow> Threw (TypeError ''Cannot read property 'logs' of undefined'') w
           | Some rcpt \<Rightarrow>
               (case find (isDeployLog logTopic dao) (logs rcpt) of
                  None \<Rightarrow> Skipped ''App wasn't deployed in transaction.'' w
                | Some deployLog \<Rightarrow>
                    (case decodeLog env (abi_inputs logABI) (data deployLog) of
                       Inl e \<Rightarrow> Threw e w
                     | Inr log \<Rightarrow> Completed (w\<lparr>ctx := (ctx w)\<lparr>appAddress := log ''proxy''\<rparr>\<rparr>)))))"

text \<open>The step titled \<^verbatim>\<open>Set permissions\<close>: its \<open>enabled\<close> predicate and its action.\<close>

definition setPermissionsEnabled :: "install_args \<Rightarrow> install_world \<Rightarrow> bool" where
  "setPermissionsEnabled args w = (setPermissions args = Some ''open'' \<and> truthy (appAddress (ctx w)))"

definition noRolesMessage :: string where
  "noRolesMessage =
     ''You have no roles defined in your arapp.json.'' @ [CHR 0x0A]
     @ ''This is required for your app to be properly installed.'' @ [CHR 0x0A]
     @ ''See https://hack.aragon.org/docs/cli-global-confg#the-arappjson-file for more information.''"

definition permissionParams :: "util \<Rightarrow> string option \<Rightarrow> role \<Rightarrow> jsval list" where
  "permissionParams u app r = [JStr (ANY_ENTITY u), optStr app, JStr (bytes r), JStr (NO_MANAGER u)]"

text \<open>\<^verbatim>\<open>if (!ctx.accounts) { ctx.accounts = await web3.eth.getAccounts() }\<close>\<close>

definition ensureAccounts :: "install_env \<Rightarrow> install_world \<Rightarrow> error + install_world" where
  "ensureAccounts env w =
     (case accounts (ctx w) of
        Some a \<Rightarrow> Inr w
      | None \<Rightarrow> (case getAccounts env of
                   Inl e \<Rightarrow> Inl e
                 | Inr a \<Rightarrow> Inr (w\<lparr>ctx := (ctx w)\<lparr>accounts := Some a\<rparr>\<rparr>)))"

text \<open>
  \<^verbatim>\<open>Promise.all(permissions.map(params => execTask(dao, ...).then(tasks => tasks.run())))\<close>:
  \<^verbatim>\<open>map\<close> calls \<^verbatim>\<open>execTask\<close> once for every element before any of the promises
  settles; each task list runs on a context of its own.
\<close>

definition createPermissions :: "install_env \<Rightarrow> string \<Rightarrow> jsval list list \<Rightarrow> install_world \<Rightarrow> install_world outcome" where
  "createPermissions env dao permissions w =
     (let reqs = map (ACLTransactionPath ''createPermission'') permissions;
          w2 = w\<lparr>execTasks := execTasks w @ map (Pair dao) reqs\<rparr>
      in case firstRejection (map (execTask env dao) reqs) of
           Some e \<Rightarrow> Threw e w2
         | None \<Rightarrow> Completed w2)"

definition setPermissionsTask :: "util \<Rightarrow> install_env \<Rightarrow> string \<Rightarrow> install_world \<Rightarrow> install_world outcome" where
  "setPermissionsTask u env dao w =
     (case repo (ctx w) of
        None \<Rightarrow> Threw (TypeError ''Cannot read property 'roles' of undefined'') w
      | Some r \<Rightarrow>
          (case roles r of
             None \<Rightarrow> Threw (Error noRolesMessage) w
           | Some rs \<Rightarrow>
               if length rs = 0 then Threw (Error noRolesMessage) w
               else (let permissions = map (permissionParams u (appAddress (ctx w))) rs in
                     case ensureAccounts env w of
                       Inl e \<Rightarrow> Threw e w
                     | Inr w1 \<Rightarrow> createPermissions env dao permissions w1)))"

subsection \<open>The task list and the task\<close>

definition install_tasks :: "util \<Rightarrow> install_env \<Rightarrow> install_args \<Rightarrow> string \<Rightarrow> install_world step list" where
  "install_tasks u env args dao =
     [\<lparr>title = ''Fetching '' @ chalk_bold env (apmRepo args) @ ''@'' @ showStr (apmRepoVersion args),
       enabled = (\<lambda>w. True),
       task = getRepoTask env args\<rparr>,
      \<lparr>title = ''Checking installed version'',
       enabled = (\<lambda>w. True),
       task = checkInstalledVersion u env args\<rparr>,
      \<lparr>title = ''Deploying app instance'',
       enabled = (\<lambda>w. True),
       task = deployAppInstance env args dao\<rparr>,
      \<lparr>title = ''Fetching deployed app'',
       enabled = (\<lambda>w. True),
       task = fetchDeployedApp env dao\<rparr>,
      \<lparr>title = ''Set permissions'',
       enabled = setPermissionsEnabled args,
       task = setPermissionsTask u env dao\<rparr>]"

text \<open>
  \<^verbatim>\<open>exports.task\<close>: the DAO is resolved, then the task list is built. The APM client
  has been created and the name of the repo has been through \<^verbatim>\<open>defaultAPMName\<close>; the
  collaborators of \<open>env\<close> stand for both.
\<close>

definition install_task :: "util \<Rightarrow> install_env \<Rightarrow> install_args \<Rightarrow> string \<Rightarrow> error + install_world step list" where
  "install_task u env args dao =
     (case fst (resolveDao (resolveEnsDomain env) dao) of
        Inl e \<Rightarrow> Inl e
      | Inr dao' \<Rightarrow> Inr (install_tasks u env args dao'))"

text \<open>\<^verbatim>\<open>tasks.run()\<close> without an argument starts from an empty context.\<close>

definition emptyContext :: install_context where
  "emptyContext = \<lparr>repo = None, notInitialized = False, transactionPath = None,
                    receipt = None, appAddress = None, accounts = None\<rparr>"

definition emptyWorld :: install_world where
  "emptyWorld = \<lparr>ctx = emptyContext, execTasks = []\<rparr>"

section \<open>The token command\<close>

definition MAINNET_MINIME_TOKEN_FACTORY :: string where
  "MAINNET_MINIME_TOKEN_FACTORY = ''0x909d05f384d0663ed4be59863815ab43b4f347ec''"

definition RINKEBY_MINIME_TOKEN_FACTORY :: string where
  "RINKEBY_MINIME_TOKEN_FACTORY = ''0xad991658443c56b3dE2D7d7f5d8C68F339aEef29''"

text \<open>
  \<^verbatim>\<open>if (chainId === 1) tokenFactoryAddress = tokenFactoryAddress || MAINNET_...\<close> and
  the same for chain 4 with the Rinkeby constant.
\<close>

definition defaultTokenFactoryAddress :: "int \<Rightarrow> string option \<Rightarrow> string option" where
  "defaultTokenFactoryAddress chainId tokenFactoryAddress =
     (let t1 = (if chainId = 1 then js_or tokenFactoryAddress (Some MAINNET_MINIME_TOKEN_FACTORY)
                else tokenFactoryAddress);
          t2 = (if chainId = 4 then js_or t1 (Some RINKEBY_MINIME_TOKEN_FACTORY) else t1)
      in t2)"

record token_context =
  factoryAddress :: "string option"
  factoryTxHash :: "string option"
  tokenAddress :: "string option"
  tokenTxHash :: "string option"

record artifact =
  artifact_abi :: "abi_entry list"
  bytecode :: string

text \<open>\<^verbatim>\<open>contract.deploy({ data, arguments })\<close>\<close>

record deploy_tx =
  deploy_data :: string
  deploy_arguments :: "jsval list option"

text \<open>\<^verbatim>\<open>deployTx.send({ from, gas })\<close>\<close>

record send_call =
  send_tx :: deploy_tx
  send_from :: "string option"
  send_gas :: int

text \<open>
  What the promise of \<^verbatim>\<open>send\<close> does: it rejects, after the transaction hash was
  announced or before; or the receipt arrives, with the hash and the address of the
  contract, and the promise resolves.
\<close>

datatype send_outcome = SendRejected "string option" error | Mined string string

record token_world =
  tctx :: token_context
  sends :: "send_call list"

record token_env =
  eth_getAccounts :: "error + string list"
  net_getId :: "error + int"
  parseStringIfPossible :: "jsval \<Rightarrow> jsval"
  isAddress :: "string option \<Rightarrow> bool"
  getContract :: "string \<Rightarrow> string \<Rightarrow> artifact"
  estimateGas :: "deploy_tx \<Rightarrow> error + int"
  getRecommendedGasLimit :: "int \<Rightarrow> error + int"
  send :: "send_call \<Rightarrow> send_outcome"

record token_args =
  tokenName :: string
  symbol :: string
  decimalUnits :: jsval
  transferEnabled :: jsval
  tokenFactoryAddress :: "string option"

text \<open>
  The part the two steps share: the gas estimate, the recommended limit, the send and
  the events of its promise. \<open>onHash\<close> and \<open>onReceipt\<close> are the assignments of the
  \<^verbatim>\<open>transactionHash\<close> and \<^verbatim>\<open>receipt\<close> handlers.
\<close>

definition deployAndSend ::
  "token_env \<Rightarrow> string option \<Rightarrow> deploy_tx \<Rightarrow> (string \<Rightarrow> token_context \<Rightarrow> token_context) \<Rightarrow>
   (string \<Rightarrow> token_context \<Rightarrow> token_context) \<Rightarrow> token_world \<Rightarrow> token_world outcome" where
  "deployAndSend env from deployTx onHash onReceipt w =
     (case estimateGas env deployTx of
        Inl e \<Rightarrow> Threw e w
      | Inr estimatedGas \<Rightarrow>
          (case getRecommendedGasLimit env estimatedGas of
             Inl e \<Rightarrow> Threw e w
           | Inr gas \<Rightarrow>
               (let call = \<lparr>send_tx = deployTx, send_from = from, send_gas = gas\<rparr>;
                    w1 = w\<lparr>sends := sends w @ [call]\<rparr>
                in case send env call of
                     SendRejected None e \<Rightarrow> Threw e w1
                   | SendRejected (Some h) e \<Rightarrow> Threw e (w1\<lparr>tctx := onHash h (tctx w1)\<rparr>)
                   | Mined h a \<Rightarrow> Completed (w1\<lparr>tctx := onReceipt a (onHash h (tctx w1))\<rparr>))))"

text \<open>The step titled \<^verbatim>\<open>Deploy the MiniMeTokenFactory contract\<close>.\<close>

definition factoryEnabled :: "token_env \<Rightarrow> string option \<Rightarrow> token_world \<Rightarrow> bool" where
  "factoryEnabled env tokenFactoryAddr w = (\<not> isAddress env tokenFactoryAddr)"

definition deployFactory :: "token_env \<Rightarrow> string option \<Rightarrow> token_world \<Rightarrow> token_world outcome" where
  "deployFactory env from w =
     (let art = getContract env ''@aragon/apps-shared-minime'' ''MiniMeTokenFactory'';
          deployTx = \<lparr>deploy_data = bytecode art, deploy_arguments = None\<rparr>
      in deployAndSend env from deployTx
           (\<lambda>h c. c\<lparr>factoryTxHash := Some h\<rparr>) (\<lambda>a c. c\<lparr>factoryAddress := Some a\<rparr>) w)"

text \<open>The step titled \<^verbatim>\<open>Deploy the MiniMeToken contract\<close>.\<close>

definition tokenArguments :: "util \<Rightarrow> token_args \<Rightarrow> string option \<Rightarrow> jsval \<Rightarrow> token_context \<Rightarrow> jsval list" where
  "tokenArguments u args tokenFactoryAddr transferFlag c =
     [optStr (js_or (factoryAddress c) tokenFactoryAddr),
      JStr (ZERO_ADDRESS u),
      JNum 0,
      JStr (tokenName args),
      decimalUnits args,
      JStr (symbol args),
      transferFlag]"

definition deployToken ::
  "util \<Rightarrow> token_env \<Rightarrow> token_args \<Rightarrow> string option \<Rightarrow> string option \<Rightarrow> jsval \<Rightarrow>
   token_world \<Rightarrow> token_world outcome" where
  "deployToken u env args from tokenFactoryAddr transferFlag w =
     (let art = getContract env ''@aragon/apps-shared-minime'' ''MiniMeToken'';
          deployTx = \<lparr>deploy_data = bytecode art,
                      deploy_arguments = Some (tokenArguments u args tokenFactoryAddr transferFlag (tctx w))\<rparr>
      in deployAndSend env from deployTx
           (\<lambda>h c. c\<lparr>tokenTxHash := Some h\<rparr>) (\<lambda>a c. c\<lparr>tokenAddress := Some a\<rparr>) w)"

definition token_tasks ::
  "util \<Rightarrow> token_env \<Rightarrow> token_args \<Rightarrow> string option \<Rightarrow> string option \<Rightarrow> jsval \<Rightarrow> token_world step list" where
  "token_tasks u env args from tokenFactoryAddr transferFlag =
     [\<lparr>title = ''Deploy the MiniMeTokenFactory contract'',
       enabled = factoryEnabled env tokenFactoryAddr,
       task = deployFactory env from\<rparr>,
      \<lparr>title = ''Deploy the MiniMeToken contract'',
       enabled = (\<lambda>w. True),
       task = deployToken u env args from tokenFactoryAddr transferFlag\<rparr>]"

text \<open>
  \<^verbatim>\<open>exports.task\<close>: the sender is the first account, the factory address is defaulted by
  chain id, the transfer flag is parsed, then the task list is built.
\<close>

definition token_task :: "util \<Rightarrow> token_env \<Rightarrow> token_args \<Rightarrow> error + token_world step list" where
  "token_task u env args =
     (case eth_getAccounts env of
        Inl e \<Rightarrow> Inl e
      | Inr accs \<Rightarrow>
          (let from = (case accs of [] \<Rightarrow> None | a # _ \<Rightarrow> Some a) in
           case net_getId env of
             Inl e \<Rightarrow> Inl e
           | Inr chainId \<Rightarrow>
               Inr (token_tasks u env args from
                      (defaultTokenFactoryAddress chainId (tokenFactoryAddress args))
                      (parseStringIfPossible env (transferEnabled args)))))"

definition emptyTokenContext :: token_context where
  "emptyTokenContext = \<lparr>factoryAddress = None, factoryTxHash = None,
                         tokenAddress = None, tokenTxHash = None\<rparr>"

definition emptyTokenWorld :: token_world where
  "emptyTokenWorld = \<lparr>tctx = emptyTokenContext, sends = []\<rparr>"

section \<open>The properties of a pipeline\<close>

text \<open>
  Three properties of a list of steps under the runner. Declaration order: in every
  run the positions of the executed steps are strictly increasing and lie within the
  list. Halting: if the steps before position \<open>k\<close> bring the run to a state in which
  step \<open>k\<close> is enabled and throws \<open>e\<close>, the run settles to \<open>Inl e\<close>, the executed
  positions are those of the run so far followed by \<open>k\<close>, and none is beyond \<open>k\<close>.
  Skipping: a disabled step is passed over with the state as it is, and a step that
  skips itself hands back the state it was given.
\<close>

abbreviation runsInDeclarationOrder :: "'w step list \<Rightarrow> bool" where
  "runsInDeclarationOrder steps \<equiv>
     (\<forall>w. sorted_wrt (<) (snd (run steps w)) \<and> set (snd (run steps w)) \<subseteq> {..<length steps})"

abbreviation haltsAtThrow :: "'w step list \<Rightarrow> bool" where
  "haltsAtThrow steps \<equiv>
     (\<forall>k w wk tr e w'.
        k < length steps \<and> runTasks (take k steps) 0 w = (Inr wk, tr) \<and>
        enabled (steps ! k) wk \<and> task (steps ! k) wk = Threw e w'
        \<longrightarrow> run steps w = (Inl e, tr @ [k]) \<and> (\<forall>j\<in>set (snd (run steps w)). j \<le> k))"

abbreviation skipKeepsContext :: "'w step list \<Rightarrow> bool" where
  "skipKeepsContext steps \<equiv>
     (\<forall>k w. k < length steps \<longrightarrow>
        (\<not> enabled (steps ! k) w \<longrightarrow>
           runTasks (drop k steps) k w = runTasks (drop (Suc k) steps) (Suc k) w) \<and>
        (\<forall>m w'. task (steps ! k) w = Skipped m w' \<longrightarrow> w' = w))"

section \<open>Example inputs\<close>

definition exUtil :: util where
  "exUtil = \<lparr>ANY_ENTITY = ''0xffffffffffffffffffffffffffffffffffffffff'',
             NO_MANAGER = ''0x0000000000000000000000000000000000000000'',
             ZERO_ADDRESS = ''0x0000000000000000000000000000000000000000''\<rparr>"

definition exDao :: string where
  "exDao = ''0x5b6a3301a67A4bfda9D3a528CaD34cac6e7F8070''"

definition exKernelABI :: "abi_entry list" where
  "exKernelABI =
     [\<lparr>abi_type = ''function'', abi_name = Some ''APP_BASES_NAMESPACE'', abi_inputs = []\<rparr>,
      \<lparr>abi_type = ''event'', abi_name = Some ''NewAppProxy'',
       abi_inputs = [\<lparr>in_name = ''proxy'', in_type = ''address''\<rparr>,
                     \<lparr>in_name = ''isUpgradeable'', in_type = ''bool''\<rparr>,
                     \<lparr>in_name = ''appId'', in_type = ''bytes32''\<rparr>]\<rparr>]"

definition exRepo :: "role list option \<Rightarrow> app_repo" where
  "exRepo rs = \<lparr>appId = ''0x9fa3927f639745e587912d4b0fea7ef9013bf93fb907d29faeab57417ba6e1d4'',
                contractAddress = ''0xb4fa71b3352D48AA93D34d085f87bb4aF0cE6Ab5'',
                abi = [], roles = rs\<rparr>"

definition exRoles :: "role list" where
  "exRoles = [\<lparr>bytes = ''0xe7dcd7275292e064d090fbc5f3bd7995be23b502c1fed5cd94cfddbbdcd32bbc''\<rparr>,
              \<lparr>bytes = ''0xda3972983e62bdf826c4b807c4c9c2b8a941e1f83dfa76d53d6aeac11e1be650''\<rparr>]"

text \<open>
  A receipt with one log of another contract and the log of the DAO (its address in
  lower case), whose data the example decoder reads as the proxy address.
\<close>

definition exReceipt :: tx_receipt where
  "exReceipt =
     \<lparr>logs = [\<lparr>topics = [''sha3:NewAppProxy(address,bool,bytes32)''],
               address = ''0x0000000000000000000000000000000000000abc'',
               data = ''0x1902a0410EFe699487Dd85F12321aD672bE4ada2''\<rparr>,
              \<lparr>topics = [''sha3:NewAppProxy(address,bool,bytes32)''],
               address = ''0x5b6a3301a67a4bfda9d3a528cad34cac6e7f8070'',
               data = ''0x7FB7a9D5Dfa0a7A2D6c7A0B5fbb5d2e1a1C6E2f3''\<rparr>]\<rparr>"

text \<open>
  Collaborators that all succeed; the registered base address, the declared roles and
  the answer of the account lookup are left open.
\<close>

definition exEnv :: "string \<Rightarrow> role list option \<Rightarrow> error + string list \<Rightarrow> install_env" where
  "exEnv currentBase rs accs =
     \<lparr>chalk_bold = (\<lambda>s. s),
      resolveEnsDomain = (\<lambda>d. Inr ''0x5b6a3301a67A4bfda9D3a528CaD34cac6e7F8070''),
      getVersion = (\<lambda>n v. Inr (exRepo rs)),
      APP_BASES_NAMESPACE = Inr ''0xf1f3eb40f5bc1ad1344716ced8b8a0431d840b5783aea1fd01786bc26f35ac0f'',
      getApp = (\<lambda>ns i. Inr currentBase),
      encodeInitPayload = (\<lambda>a f xs. Inr ''0x''),
      execTask = (\<lambda>d r. Inr ([''Create a new app instance''], exReceipt)),
      kernelABI = exKernelABI,
      sha3 = (\<lambda>s. ''sha3:'' @ s),
      decodeLog = (\<lambda>ins d. Inr (map_of [(''proxy'', d)])),
      getAccounts = accs\<rparr>"

definition exArgs :: install_args where
  "exArgs = \<lparr>apmRepo = ''voting.aragonpm.eth'', apmRepoVersion = None, appInit = ''initialize'',
             appInitArgs = [], setPermissions = Some ''open''\<rparr>"

text \<open>
  The state after the repo was fetched, the state after the transaction was sent, and
  the state after the deployed app was read from the receipt.
\<close>

definition exWorldRepo :: "role list option \<Rightarrow> install_world" where
  "exWorldRepo rs = emptyWorld\<lparr>ctx := emptyContext\<lparr>repo := Some (exRepo rs)\<rparr>\<rparr>"

definition exWorldSent :: "role list option \<Rightarrow> install_world" where
  "exWorldSent rs =
     \<lparr>ctx = emptyContext\<lparr>repo := Some (exRepo rs), receipt := Some exReceipt,
                         transactionPath := Some [''Create a new app instance'']\<rparr>,
      execTasks = []\<rparr>"

definition exWorldDeployed :: "role list option \<Rightarrow> install_world" where
  "exWorldDeployed rs =
     \<lparr>ctx = emptyContext\<lparr>repo := Some (exRepo rs), receipt := Some exReceipt,
                         transactionPath := Some [''Create a new app instance''],
                         appAddress := Some ''0x7FB7a9D5Dfa0a7A2D6c7A0B5fbb5d2e1a1C6E2f3''\<rparr>,
      execTasks = []\<rparr>"

definition exTokenEnv :: "int \<Rightarrow> error + int \<Rightarrow> token_env" where
  "exTokenEnv chainId estimate =
     \<lparr>eth_getAccounts = Inr [''0xb4124cEB3451635DAcedd11767f004d8a28c6eE7''],
      net_getId = Inr chainId,
      parseStringIfPossible = (\<lambda>v. if v = JStr ''true'' then JBool True
                                     else if v = JStr ''false'' then JBool False else v),
      isAddress = (\<lambda>v. case v of None \<Rightarrow> False | Some s \<Rightarrow> length s = 42 \<and> matchHere s),
      getContract = (\<lambda>pkg name. \<lparr>artifact_abi = [], bytecode = ''0x60806040:'' @ name\<rparr>),
      estimateGas = (\<lambda>tx. estimate),
      getRecommendedGasLimit = (\<lambda>g. Inr (g + 100000)),
      send = (\<lambda>c. if deploy_arguments (send_tx c) = None
                   then Mined ''0xfac7'' ''0x1902a0410EFe699487Dd85F12321aD672bE4ada2''
                   else Mined ''0x70ce'' ''0x7FB7a9D5Dfa0a7A2D6c7A0B5fbb5d2e1a1C6E2f3'')\<rparr>"

definition exTokenArgs :: "string option \<Rightarrow> token_args" where
  "exTokenArgs factory = \<lparr>tokenName = ''Member'', symbol = ''MBR'', decimalUnits = JNum 18,
                          transferEnabled = JStr ''true'', tokenFactoryAddress = factory\<rparr>"

text \<open>The state after the example factory was deployed from the empty context.\<close>

definition exTokenWorldFactory :: token_world where
  "exTokenWorldFactory =
     \<lparr>tctx = \<lparr>factoryAddress = Some ''0x1902a0410EFe699487Dd85F12321aD672bE4ada2'',
               factoryTxHash = Some ''0xfac7'', tokenAddress = None, tokenTxHash = None\<rparr>,
      sends = [\<lparr>send_tx = \<lparr>deploy_data = ''0x60806040:MiniMeTokenFactory'', deploy_arguments = None\<rparr>,
                send_from = Some ''0xb4124cEB3451635DAcedd11767f004d8a28c6eE7'',
                send_gas = 3100000\<rparr>]\<rparr>"

section \<open>The pipeline runner\<close>

lemma runTasks_trace_bounds:
  "j \<in> set (snd (runTasks steps i w)) \<Longrightarrow> i \<le> j \<and> j < i + length steps"
proof (induction steps arbitrary: i w)
  case Nil
  then show ?case by simp
next
  case (Cons s ss)
  show ?case
  proof (cases "enabled s w")
    case False
    with Cons.prems have "j \<in> set (snd (runTasks ss (Suc i) w))" by simp
    from Cons.IH[OF this] show ?thesis by simp
  next
    case True
    show ?thesis
    proof (cases "task s w")
      case (Threw e w')
      with True Cons.prems show ?thesis by simp
    next
      case (Completed w')
      with True Cons.prems have "j = i \<or> j \<in> set (snd (runTasks ss (Suc i) w'))"
        by (auto split: prod.splits)
      then show ?thesis using Cons.IH[of "Suc i" w'] by auto
    next
      case (Skipped m w')
      with True Cons.prems have "j = i \<or> j \<in> set (snd (runTasks ss (Suc i) w'))"
        by (auto split: prod.splits)
      then show ?thesis using Cons.IH[of "Suc i" w'] by auto
    qed
  qed
qed

lemma runTasks_trace_sorted: "sorted_wrt (<) (snd (runTasks steps i w))"
proof (induction steps arbitrary: i w)
  case Nil
  show ?case by simp
next
  case (Cons s ss)
  have later: "\<And>w' j. j \<in> set (snd (runTasks ss (Suc i) w')) \<Longrightarrow> i < j"
    using runTasks_trace_bounds by fastforce
  show ?case
  proof (cases "enabled s w")
    case False
    then show ?thesis using Cons.IH by simp
  next
    case True
    show ?thesis
    proof (cases "task s w")
      case (Threw e w')
      with True show ?thesis by simp
    next
      case (Completed w')
      with True show ?thesis using Cons.IH[of "Suc i" w'] later[of _ w']
        by (auto split: prod.splits)
    next
      case (Skipped m w')
      with True show ?thesis using Cons.IH[of "Suc i" w'] later[of _ w']
        by (auto split: prod.splits)
    qed
  qed
qed

lemma runTasks_append_throw:
  "runTasks xs i w = (Inr wk, tr) \<Longrightarrow> enabled s wk \<Longrightarrow> task s wk = Threw e w' \<Longrightarrow>
   runTasks (xs @ s # ys) i w = (Inl e, tr @ [i + length xs])"
proof (induction xs arbitrary: i w tr)
  case Nil
  then show ?case by simp
next
  case (Cons x xs)
  show ?case
  proof (cases "enabled x w")
    case False
    with Cons.prems have "runTasks xs (Suc i) w = (Inr wk, tr)" by simp
    from Cons.IH[OF this Cons.prems(2,3)] False show ?thesis by simp
  next
    case True
    show ?thesis
    proof (cases "task x w")
      case (Threw e0 w0)
      with True Cons.prems(1) show ?thesis by simp
    next
      case (Completed w0)
      with True Cons.prems(1) obtain tr0 where r: "runTasks xs (Suc i) w0 = (Inr wk, tr0)" and tr: "tr = i # tr0"
        by (auto split: prod.splits)
      from Cons.IH[OF r Cons.prems(2,3)] True Completed tr show ?thesis by simp
    next
      case (Skipped m w0)
      with True Cons.prems(1) obtain tr0 where r: "runTasks xs (Suc i) w0 = (Inr wk, tr0)" and tr: "tr = i # tr0"
        by (auto split: prod.splits)
      from Cons.IH[OF r Cons.prems(2,3)] True Skipped tr show ?thesis by simp
    qed
  qed
qed

lemma runsInDeclarationOrder_any: "runsInDeclarationOrder steps"
proof (intro allI conjI)
  fix w
  show "sorted_wrt (<) (snd (run steps w))"
    by (simp add: run_def runTasks_trace_sorted)
  show "set (snd (run steps w)) \<subseteq> {..<length steps}"
    using runTasks_trace_bounds[of _ steps 0 w] by (auto simp: run_def)
qed

lemma haltsAtThrow_any: "haltsAtThrow steps"
proof (intro allI impI)
  fix k w wk tr e w'
  assume a: "k < length steps \<and> runTasks (take k steps) 0 w = (Inr wk, tr) \<and>
        enabled (steps ! k) wk \<and> task (steps ! k) wk = Threw e w'"
  then have k: "k < length steps" by simp
  have split: "steps = take k steps @ steps ! k # drop (Suc k) steps"
    using k by (simp add: id_take_nth_drop)
  from a have a1: "runTasks (take k steps) 0 w = (Inr wk, tr)"
    and a2: "enabled (steps ! k) wk" and a3: "task (steps ! k) wk = Threw e w'" by simp_all
  have "runTasks (take k steps @ steps ! k # drop (Suc k) steps) 0 w
          = (Inl e, tr @ [0 + length (take k steps)])"
    by (rule runTasks_append_throw[OF a1 a2 a3])
  with split k have r: "run steps w = (Inl e, tr @ [k])"
    by (simp add: run_def min_def)
  have "\<forall>j\<in>set tr. j < k"
    using runTasks_trace_bounds[of _ "take k steps" 0 w] a k by auto
  with r show "run steps w = (Inl e, tr @ [k]) \<and> (\<forall>j\<in>set (snd (run steps w)). j \<le> k)"
    by auto
qed

lemma disabled_passed_over:
  "k < length steps \<Longrightarrow> \<not> enabled (steps ! k) w \<Longrightarrow>
   runTasks (drop k steps) k w = runTasks (drop (Suc k) steps) (Suc k) w"
  by (simp add: Cons_nth_drop_Suc[symmetric])

lemma getRepoTask_no_skip: "getRepoTask env args w \<noteq> Skipped m w'"
  by (simp add: getRepoTask_def split: sum.splits)

lemma checkInstalledVersion_skip: "checkInstalledVersion u env args w = Skipped m w' \<Longrightarrow> w' = w"
  by (simp add: checkInstalledVersion_def split: sum.splits option.splits if_splits)

lemma execTaskOnCtx_no_skip: "execTaskOnCtx env dao req w \<noteq> Skipped m w'"
  by (simp add: execTaskOnCtx_def Let_def split: sum.splits prod.splits)

lemma deployAppInstance_no_skip: "deployAppInstance env args dao w \<noteq> Skipped m w'"
  by (simp add: deployAppInstance_def Let_def execTaskOnCtx_no_skip split: sum.splits option.splits)

lemma fetchDeployedApp_skip: "fetchDeployedApp env dao w = Skipped m w' \<Longrightarrow> w' = w"
  by (simp add: fetchDeployedApp_def Let_def split: sum.splits option.splits)

lemma createPermissions_no_skip: "createPermissions env dao ps w \<noteq> Skipped m w'"
  by (simp add: createPermissions_def Let_def split: option.splits)

lemma setPermissionsTask_no_skip: "setPermissionsTask u env dao w \<noteq> Skipped m w'"
  by (simp add: setPermissionsTask_def Let_def createPermissions_no_skip
      split: sum.splits option.splits)

lemma deployAndSend_no_skip: "deployAndSend env from tx onHash onReceipt w \<noteq> Skipped m w'"
  by (simp add: deployAndSend_def Let_def split: sum.splits option.splits send_outcome.splits)

lemma install_tasks_nth:
  "task (install_tasks u env args dao ! 0) = getRepoTask env args"
  "task (install_tasks u env args dao ! Suc 0) = checkInstalledVersion u env args"
  "task (install_tasks u env args dao ! 2) = deployAppInstance env args dao"
  "task (install_tasks u env args dao ! 3) = fetchDeployedApp env dao"
  "task (install_tasks u env args dao ! 4) = setPermissionsTask u env dao"
  by (simp_all add: install_tasks_def)

lemma token_tasks_nth:
  "task (token_tasks u env args from tfa flag ! 0) = deployFactory env from"
  "task (token_tasks u env args from tfa flag ! Suc 0) = deployToken u env args from tfa flag"
  by (simp_all add: token_tasks_def)

lemma install_skip: "k < length (install_tasks u env args dao) \<Longrightarrow>
   task (install_tasks u env args dao ! k) w = Skipped m w' \<Longrightarrow> w' = w"
proof -
  assume k: "k < length (install_tasks u env args dao)" 
    and s: "task (install_tasks u env args dao ! k) w = Skipped m w'"
  from k have "k < 5" by (simp add: install_tasks_def)
  then consider "k = 0" | "k = 1" | "k = 2" | "k = 3" | "k = 4" by arith
  then show ?thesis
  proof cases
    case 1 with s show ?thesis by (simp add: install_tasks_nth getRepoTask_no_skip)
  next
    case 2 with s show ?thesis by (simp add: install_tasks_nth checkInstalledVersion_skip)
  next
    case 3 with s show ?thesis by (simp add: install_tasks_nth deployAppInstance_no_skip)
  next
    case 4 with s show ?thesis by (simp add: install_tasks_nth fetchDeployedApp_skip)
  next
    case 5 with s show ?thesis by (simp add: install_tasks_nth setPermissionsTask_no_skip)
  qed
qed

lemma token_skip: "k < length (token_tasks u env args from tfa flag) \<Longrightarrow>
   task (token_tasks u env args from tfa flag ! k) w = Skipped m w' \<Longrightarrow> w' = w"
proof -
  assume k: "k < length (token_tasks u env args from tfa flag)" 
    and s: "task (token_tasks u env args from tfa flag ! k) w = Skipped m w'"
  from k have "k < 2" by (simp add: token_tasks_def)
  then consider "k = 0" | "k = 1" by arith
  then show ?thesis
  proof cases
    case 1 with s show ?thesis
      by (simp add: token_tasks_nth deployFactory_def Let_def deployAndSend_no_skip)
  next
    case 2 with s show ?thesis
      by (simp add: token_tasks_nth deployToken_def Let_def deployAndSend_no_skip)
  qed
qed

text \<open>
  Claim C1. For every pipeline built by the install or the token-new task: the steps
  execute strictly in declaration order; if the step at position \<open>k\<close> throws, no step at
  a later position executes and the run rejects with exactly that error; a skipped step
  (disabled, or skipping itself) leaves the pipeline state unchanged.
\<close>

theorem pipelines_run_in_order_and_halt_at_throw:
  "(runsInDeclarationOrder (install_tasks u env args dao) \<and>
    haltsAtThrow (install_tasks u env args dao) \<and>
    skipKeepsContext (install_tasks u env args dao)) \<and>
   (runsInDeclarationOrder (token_tasks u tenv targs from tfa flag) \<and>
    haltsAtThrow (token_tasks u tenv targs from tfa flag) \<and>
    skipKeepsContext (token_tasks u tenv targs from tfa flag))"
proof (intro conjI)
  show "runsInDeclarationOrder (install_tasks u env args dao)" by (rule runsInDeclarationOrder_any)
  show "haltsAtThrow (install_tasks u env args dao)" by (rule haltsAtThrow_any)
  show "skipKeepsContext (install_tasks u env args dao)"
  proof (intro allI impI conjI)
    fix k w m w'
    assume "k < length (install_tasks u env args dao)"
      and "task (install_tasks u env args dao ! k) w = Skipped m w'"
    then show "w' = w" by (rule install_skip)
  qed (rule disabled_passed_over)
  show "runsInDeclarationOrder (token_tasks u tenv targs from tfa flag)" by (rule runsInDeclarationOrder_any)
  show "haltsAtThrow (token_tasks u tenv targs from tfa flag)" by (rule haltsAtThrow_any)
  show "skipKeepsContext (token_tasks u tenv targs from tfa flag)"
  proof (intro allI impI conjI)
    fix k w m w'
    assume "k < length (token_tasks u tenv targs from tfa flag)"
      and "task (token_tasks u tenv targs from tfa flag ! k) w = Skipped m w'"
    then show "w' = w" by (rule token_skip)
  qed (rule disabled_passed_over)
qed

theorem pipelines_run_in_order_and_halt_at_throw_witness:
  "(1 < length (install_tasks exUtil (exEnv ''0x1111111111111111111111111111111111111111'' (Some exRoles) (Inr [])) exArgs exDao) \<and>
    runTasks (take 1 (install_tasks exUtil (exEnv ''0x1111111111111111111111111111111111111111'' (Some exRoles) (Inr [])) exArgs exDao)) 0 emptyWorld
      = (Inr (exWorldRepo (Some exRoles)), [0]) \<and>
    enabled (install_tasks exUtil (exEnv ''0x1111111111111111111111111111111111111111'' (Some exRoles) (Inr [])) exArgs exDao ! 1)
      (exWorldRepo (Some exRoles)) \<and>
    task (install_tasks exUtil (exEnv ''0x1111111111111111111111111111111111111111'' (Some exRoles) (Inr [])) exArgs exDao ! 1)
      (exWorldRepo (Some exRoles))
      = Threw (Error (versionMismatchMessage ''voting.aragonpm.eth'' ''0x1111111111111111111111111111111111111111''))
          (exWorldRepo (Some exRoles))) \<and>
   run (install_tasks exUtil (exEnv ''0x1111111111111111111111111111111111111111'' (Some exRoles) (Inr [])) exArgs exDao) emptyWorld
     = (Inl (Error (versionMismatchMessage ''voting.aragonpm.eth'' ''0x1111111111111111111111111111111111111111'')), [0, 1]) \<and>
   (4 < length (install_tasks exUtil (exEnv ''0x1111111111111111111111111111111111111111'' (Some exRoles) (Inr [])) exArgs exDao) \<and>
    \<not> enabled (install_tasks exUtil (exEnv ''0x1111111111111111111111111111111111111111'' (Some exRoles) (Inr [])) exArgs exDao ! 4)
        (exWorldSent (Some exRoles))) \<and>
   runTasks (drop 4 (install_tasks exUtil (exEnv ''0x1111111111111111111111111111111111111111'' (Some exRoles) (Inr [])) exArgs exDao)) 4
       (exWorldSent (Some exRoles))
     = runTasks (drop (Suc 4) (install_tasks exUtil (exEnv ''0x1111111111111111111111111111111111111111'' (Some exRoles) (Inr [])) exArgs exDao)) (Suc 4)
       (exWorldSent (Some exRoles)) \<and>
   task (install_tasks exUtil (exEnv (ZERO_ADDRESS exUtil) (Some exRoles) (Inr [])) exArgs exDao ! 1)
       (exWorldRepo (Some exRoles))
     = Skipped ''Installing the first instance of voting.aragonpm.eth in DAO'' (exWorldRepo (Some exRoles)) \<and>
   (1 < length (token_tasks exUtil (exTokenEnv 1 (Inl (Error ''gas required exceeds allowance''))) (exTokenArgs None)
            (Some ''0xb4124cEB3451635DAcedd11767f004d8a28c6eE7'')
            (Some ''0x909d05f384d0663ed4be59863815ab43b4f347ec'') (JBool True)) \<and>
    runTasks (take 1 (token_tasks exUtil (exTokenEnv 1 (Inl (Error ''gas required exceeds allowance''))) (exTokenArgs None)
            (Some ''0xb4124cEB3451635DAcedd11767f004d8a28c6eE7'')
            (Some ''0x909d05f384d0663ed4be59863815ab43b4f347ec'') (JBool True))) 0 emptyTokenWorld
      = (Inr emptyTokenWorld, []) \<and>
    enabled (token_tasks exUtil (exTokenEnv 1 (Inl (Error ''gas required exceeds allowance''))) (exTokenArgs None)
            (Some ''0xb4124cEB3451635DAcedd11767f004d8a28c6eE7'')
            (Some ''0x909d05f384d0663ed4be59863815ab43b4f347ec'') (JBool True) ! 1) emptyTokenWorld \<and>
    task (token_tasks exUtil (exTokenEnv 1 (Inl (Error ''gas required exceeds allowance''))) (exTokenArgs None)
            (Some ''0xb4124cEB3451635DAcedd11767f004d8a28c6eE7'')
            (Some ''0x909d05f384d0663ed4be59863815ab43b4f347ec'') (JBool True) ! 1) emptyTokenWorld
      = Threw (Error ''gas required exceeds allowance'') emptyTokenWorld) \<and>
   run (token_tasks exUtil (exTokenEnv 1 (Inl (Error ''gas required exceeds allowance''))) (exTokenArgs None)
            (Some ''0xb4124cEB3451635DAcedd11767f004d8a28c6eE7'')
            (Some ''0x909d05f384d0663ed4be59863815ab43b4f347ec'') (JBool True)) emptyTokenWorld
     = (Inl (Error ''gas required exceeds allowance''), [1])"
proof -
  let ?env = "exEnv ''0x1111111111111111111111111111111111111111'' (Some exRoles) (Inr [])"
  let ?I = "install_tasks exUtil ?env exArgs exDao"
  let ?e = "Error (versionMismatchMessage ''voting.aragonpm.eth'' ''0x1111111111111111111111111111111111111111'')"
  let ?tenv = "exTokenEnv 1 (Inl (Error ''gas required exceeds allowance''))"
  let ?from = "Some ''0xb4124cEB3451635DAcedd11767f004d8a28c6eE7''"
  let ?main = "Some ''0x909d05f384d0663ed4be59863815ab43b4f347ec''"
  let ?T = "token_tasks exUtil ?tenv (exTokenArgs None) ?from ?main (JBool True)"
  let ?te = "Error ''gas required exceeds allowance''"
  note t = pipelines_run_in_order_and_halt_at_throw
      [of exUtil ?env exArgs exDao ?tenv "exTokenArgs None" ?from ?main "JBool True"]
  have haltsI: "haltsAtThrow ?I" by (rule t[THEN conjunct1, THEN conjunct2, THEN conjunct1])
  have skipI: "skipKeepsContext ?I" by (rule t[THEN conjunct1, THEN conjunct2, THEN conjunct2])
  have haltsT: "haltsAtThrow ?T" by (rule t[THEN conjunct2, THEN conjunct2, THEN conjunct1])
  have h1: "1 < length ?I" by (simp add: install_tasks_def)
  have h2: "runTasks (take 1 ?I) 0 emptyWorld = (Inr (exWorldRepo (Some exRoles)), [0])"
    by (simp add: install_tasks_def getRepoTask_def exEnv_def exWorldRepo_def emptyWorld_def)
  have h3: "enabled (?I ! 1) (exWorldRepo (Some exRoles))"
    by (simp add: install_tasks_def)
  have h4: "task (?I ! 1) (exWorldRepo (Some exRoles)) = Threw ?e (exWorldRepo (Some exRoles))"
    by (simp add: install_tasks_def checkInstalledVersion_def exEnv_def exWorldRepo_def
        emptyWorld_def emptyContext_def exRepo_def exUtil_def exArgs_def addressesEqual_def
        toLowerCase_def lowerChar_def)
  have "run ?I emptyWorld = (Inl ?e, [0] @ [1])"
    by (rule haltsI[rule_format, OF conjI[OF h1 conjI[OF h2 conjI[OF h3 h4]]], THEN conjunct1])
  then have c1: "run ?I emptyWorld = (Inl ?e, [0, 1])" by simp
  have k4: "4 < length ?I" by (simp add: install_tasks_def)
  have d4: "\<not> enabled (?I ! 4) (exWorldSent (Some exRoles))"
    by (simp add: install_tasks_def setPermissionsEnabled_def truthy_def exWorldSent_def emptyContext_def)
  have c2: "runTasks (drop 4 ?I) 4 (exWorldSent (Some exRoles))
     = runTasks (drop (Suc 4) ?I) (Suc 4) (exWorldSent (Some exRoles))"
    by (rule skipI[rule_format, THEN conjunct1, rule_format, OF k4 d4])
  have c3: "task (install_tasks exUtil (exEnv (ZERO_ADDRESS exUtil) (Some exRoles) (Inr [])) exArgs exDao ! 1)
       (exWorldRepo (Some exRoles))
     = Skipped ''Installing the first instance of voting.aragonpm.eth in DAO'' (exWorldRepo (Some exRoles))"
    by (simp add: install_tasks_def checkInstalledVersion_def exEnv_def exWorldRepo_def
        emptyWorld_def emptyContext_def exArgs_def)
  have g1: "1 < length ?T" by (simp add: token_tasks_def)
  have g2: "runTasks (take 1 ?T) 0 emptyTokenWorld = (Inr emptyTokenWorld, [])"
    by (simp add: token_tasks_def factoryEnabled_def exTokenEnv_def isHexDigit_def)
  have g3: "enabled (?T ! 1) emptyTokenWorld" by (simp add: token_tasks_def)
  have g4: "task (?T ! 1) emptyTokenWorld = Threw ?te emptyTokenWorld"
    by (simp add: token_tasks_def deployToken_def deployAndSend_def exTokenEnv_def)
  have "run ?T emptyTokenWorld = (Inl ?te, [] @ [1])"
    by (rule haltsT[rule_format, OF conjI[OF g1 conjI[OF g2 conjI[OF g3 g4]]], THEN conjunct1])
  then have c4: "run ?T emptyTokenWorld = (Inl ?te, [1])" by simp
  show ?thesis by (intro conjI h1 h2 h3 h4 c1 k4 d4 c2 c3 g1 g2 g3 g4 c4)
qed

section \<open>The dao argument\<close>

lemma matchHere_iff:
  "matchHere s \<longleftrightarrow> (\<exists>h post. s = ''0x'' @ h @ post \<and> length h = 40 \<and> list_all isHexDigit h)"
proof
  assume m: "matchHere s"
  then obtain a b rest where s: "s = a # b # rest"
    by (cases s rule: matchHere.cases) auto
  from m s have ab: "a = CHR ''0''" "b = CHR ''x''" and len: "40 \<le> length rest"
    and hex: "list_all isHexDigit (take 40 rest)" by simp_all
  have "s = ''0x'' @ take 40 rest @ drop 40 rest" using s ab by simp
  moreover have "length (take 40 rest) = 40" using len by simp
  ultimately show "\<exists>h post. s = ''0x'' @ h @ post \<and> length h = 40 \<and> list_all isHexDigit h"
    using hex by blast
next
  assume "\<exists>h post. s = ''0x'' @ h @ post \<and> length h = 40 \<and> list_all isHexDigit h"
  then obtain h post where s: "s = ''0x'' @ h @ post" and len: "length h = 40"
    and hex: "list_all isHexDigit h" by blast
  show "matchHere s" using s len hex by simp
qed

lemma daoRegexTest_iff: "daoRegexTest s \<longleftrightarrow> hasAddressSubstring s"
proof (induction s)
  case Nil
  show ?case by (simp add: hasAddressSubstring_def)
next
  case (Cons c cs)
  have "hasAddressSubstring (c # cs) \<longleftrightarrow> matchHere (c # cs) \<or> hasAddressSubstring cs"
  proof
    assume "hasAddressSubstring (c # cs)"
    then obtain pre h post where eq: "c # cs = pre @ ''0x'' @ h @ post"
      and len: "length h = 40" and hex: "list_all isHexDigit h"
      unfolding hasAddressSubstring_def by blast
    show "matchHere (c # cs) \<or> hasAddressSubstring cs"
    proof (cases pre)
      case Nil
      with eq len hex have "matchHere (c # cs)"
        unfolding matchHere_iff by auto
      then show ?thesis ..
    next
      case (Cons p ps)
      with eq have "cs = ps @ ''0x'' @ h @ post" by simp
      with len hex have "hasAddressSubstring cs"
        unfolding hasAddressSubstring_def by blast
      then show ?thesis ..
    qed
  next
    assume "matchHere (c # cs) \<or> hasAddressSubstring cs"
    then show "hasAddressSubstring (c # cs)"
    proof
      assume "matchHere (c # cs)"
      then obtain h post where "c # cs = [] @ ''0x'' @ h @ post" "length h = 40" "list_all isHexDigit h"
        unfolding matchHere_iff by auto
      then show ?thesis unfolding hasAddressSubstring_def by blast
    next
      assume "hasAddressSubstring cs"
      then obtain pre h post where "cs = pre @ ''0x'' @ h @ post" "length h = 40" "list_all isHexDigit h"
        unfolding hasAddressSubstring_def by blast
      then have "c # cs = (c # pre) @ ''0x'' @ h @ post" by simp
      with \<open>length h = 40\<close> \<open>list_all isHexDigit h\<close> show ?thesis
        unfolding hasAddressSubstring_def by blast
    qed
  qed
  with Cons show ?case by simp
qed

text \<open>
  Claim C9. In the install task the dao argument is used as it is, with no ENS
  resolution, exactly when it has a substring of \<^verbatim>\<open>0x\<close> followed by forty hex digits,
  anywhere in the string; every other string is handed to the ENS resolver.
\<close>

theorem dao_used_as_is_iff_address_substring:
  "(daoRegexTest dao \<longleftrightarrow> hasAddressSubstring dao) \<and>
   resolveDao ens dao = (if hasAddressSubstring dao then (Inr dao, []) else (ens dao, [dao]))"
  by (simp add: resolveDao_def daoRegexTest_iff)

theorem dao_used_as_is_iff_address_substring_witness:
  "hasAddressSubstring ''dao at 0x5b6a3301a67A4bfda9D3a528CaD34cac6e7F8070, please'' \<and>
   resolveDao (\<lambda>d. Inl (Error ''ENS name not defined.''))
      ''dao at 0x5b6a3301a67A4bfda9D3a528CaD34cac6e7F8070, please''
     = (Inr ''dao at 0x5b6a3301a67A4bfda9D3a528CaD34cac6e7F8070, please'', []) \<and>
   resolveDao (\<lambda>d. Inr exDao) ''mydao.aragonid.eth'' = (Inr exDao, [''mydao.aragonid.eth''])"
proof -
  note t1 = dao_used_as_is_iff_address_substring
     [of "''dao at 0x5b6a3301a67A4bfda9D3a528CaD34cac6e7F8070, please''"
         "\<lambda>d. Inl (Error ''ENS name not defined.'')"]
  note t2 = dao_used_as_is_iff_address_substring[of "''mydao.aragonid.eth''" "\<lambda>d. Inr exDao"]
  have m1: "daoRegexTest ''dao at 0x5b6a3301a67A4bfda9D3a528CaD34cac6e7F8070, please''"
    by (simp add: isHexDigit_def)
  have m2: "\<not> daoRegexTest ''mydao.aragonid.eth''" by simp
  from t1 m1 have s1: "hasAddressSubstring ''dao at 0x5b6a3301a67A4bfda9D3a528CaD34cac6e7F8070, please''"
    by blast
  from t2 m2 have s2: "\<not> hasAddressSubstring ''mydao.aragonid.eth''" by blast
  from t1 s1 have c1: "resolveDao (\<lambda>d. Inl (Error ''ENS name not defined.''))
      ''dao at 0x5b6a3301a67A4bfda9D3a528CaD34cac6e7F8070, please''
     = (Inr ''dao at 0x5b6a3301a67A4bfda9D3a528CaD34cac6e7F8070, please'', [])"
    by (simp only: if_True)
  from t2 s2 have c2: "resolveDao (\<lambda>d. Inr exDao) ''mydao.aragonid.eth'' = (Inr exDao, [''mydao.aragonid.eth''])"
    by (simp only: if_False)
  show ?thesis by (intro conjI s1 c1 c2)
qed

section \<open>The installed-version check\<close>

lemmas ex_defs = exUtil_def exEnv_def exArgs_def exRepo_def exDao_def exWorldRepo_def
  emptyWorld_def emptyContext_def exRoles_def exReceipt_def exKernelABI_def exWorldDeployed_def
  exWorldSent_def

lemma checkInstalledVersion_resolved:
  assumes "APP_BASES_NAMESPACE env = Inr ns" "repo (ctx w) = Some r"
    "getApp env ns (appId r) = Inr currentBase"
  shows "checkInstalledVersion u env args w =
     (if currentBase = ZERO_ADDRESS u
      then Skipped (''Installing the first instance of '' @ apmRepo args @ '' in DAO'') w
      else if \<not> addressesEqual currentBase (contractAddress r)
      then Threw (Error (versionMismatchMessage (apmRepo args) currentBase)) w
      else Completed w)"
  using assms by (simp add: checkInstalledVersion_def)

lemma versionMismatchMessage_names:
  "sublist apmRepoName (versionMismatchMessage apmRepoName currentBase) \<and>
   sublist currentBase (versionMismatchMessage apmRepoName currentBase)"
proof
  show "sublist apmRepoName (versionMismatchMessage apmRepoName currentBase)"
    unfolding versionMismatchMessage_def sublist_def by (metis append.assoc)
  show "sublist currentBase (versionMismatchMessage apmRepoName currentBase)"
    unfolding versionMismatchMessage_def sublist_def by (metis append.assoc)
qed

text \<open>
  Claim C2, as amended. Once the namespace, the repo and the registered base address
  have been read, the step throws if and only if the base address is not the zero address
  and is not equal, as an address, to the contract address of the repo; with the zero
  address it skips; with an equal address it completes; and the error it throws
  otherwise carries a message that names the repo and the registered base address.
\<close>

theorem version_check_throws_iff_set_and_different:
  assumes "APP_BASES_NAMESPACE env = Inr ns" "repo (ctx w) = Some r"
    "getApp env ns (appId r) = Inr currentBase"
  shows "((\<exists>e w'. checkInstalledVersion u env args w = Threw e w') \<longleftrightarrow>
            currentBase \<noteq> ZERO_ADDRESS u \<and> \<not> addressesEqual currentBase (contractAddress r)) \<and>
         (currentBase = ZERO_ADDRESS u \<longrightarrow>
            checkInstalledVersion u env args w =
              Skipped (''Installing the first instance of '' @ apmRepo args @ '' in DAO'') w) \<and>
         (currentBase \<noteq> ZERO_ADDRESS u \<and> addressesEqual currentBase (contractAddress r) \<longrightarrow>
            checkInstalledVersion u env args w = Completed w) \<and>
         (currentBase \<noteq> ZERO_ADDRESS u \<and> \<not> addressesEqual currentBase (contractAddress r) \<longrightarrow>
            checkInstalledVersion u env args w
              = Threw (Error (versionMismatchMessage (apmRepo args) currentBase)) w \<and>
            sublist (apmRepo args) (versionMismatchMessage (apmRepo args) currentBase) \<and>
            sublist currentBase (versionMismatchMessage (apmRepo args) currentBase))"
  using checkInstalledVersion_resolved[OF assms, of u args] versionMismatchMessage_names
  by simp

theorem version_check_throws_iff_set_and_different_witness:
  "APP_BASES_NAMESPACE (exEnv ''0x1111111111111111111111111111111111111111'' (Some exRoles) (Inr []))
     = Inr ''0xf1f3eb40f5bc1ad1344716ced8b8a0431d840b5783aea1fd01786bc26f35ac0f'' \<and>
   repo (ctx (exWorldRepo (Some exRoles))) = Some (exRepo (Some exRoles)) \<and>
   getApp (exEnv ''0x1111111111111111111111111111111111111111'' (Some exRoles) (Inr []))
     ''0xf1f3eb40f5bc1ad1344716ced8b8a0431d840b5783aea1fd01786bc26f35ac0f''
     (appId (exRepo (Some exRoles))) = Inr ''0x1111111111111111111111111111111111111111'' \<and>
   ''0x1111111111111111111111111111111111111111'' \<noteq> ZERO_ADDRESS exUtil \<and>
   \<not> addressesEqual ''0x1111111111111111111111111111111111111111''
        (contractAddress (exRepo (Some exRoles))) \<and>
   checkInstalledVersion exUtil
     (exEnv ''0x1111111111111111111111111111111111111111'' (Some exRoles) (Inr [])) exArgs
     (exWorldRepo (Some exRoles))
     = Threw (Error (versionMismatchMessage (apmRepo exArgs)
                       ''0x1111111111111111111111111111111111111111''))
         (exWorldRepo (Some exRoles)) \<and>
   sublist ''0x1111111111111111111111111111111111111111''
     (versionMismatchMessage (apmRepo exArgs) ''0x1111111111111111111111111111111111111111'')"
proof -
  let ?env = "exEnv ''0x1111111111111111111111111111111111111111'' (Some exRoles) (Inr [])"
  let ?cb = "''0x1111111111111111111111111111111111111111''"
  have h1: "APP_BASES_NAMESPACE ?env
     = Inr ''0xf1f3eb40f5bc1ad1344716ced8b8a0431d840b5783aea1fd01786bc26f35ac0f''"
    by (simp add: exEnv_def)
  have h2: "repo (ctx (exWorldRepo (Some exRoles))) = Some (exRepo (Some exRoles))"
    by (simp add: exWorldRepo_def emptyWorld_def emptyContext_def)
  have h3: "getApp ?env ''0xf1f3eb40f5bc1ad1344716ced8b8a0431d840b5783aea1fd01786bc26f35ac0f''
     (appId (exRepo (Some exRoles))) = Inr ?cb"
    by (simp add: exEnv_def)
  have h4: "?cb \<noteq> ZERO_ADDRESS exUtil" by (simp add: exUtil_def)
  have h5: "\<not> addressesEqual ?cb (contractAddress (exRepo (Some exRoles)))"
    by (simp add: exRepo_def addressesEqual_def toLowerCase_def lowerChar_def)
  note t = version_check_throws_iff_set_and_different[OF h1 h2 h3, of exUtil exArgs]
  from t h4 h5 have "checkInstalledVersion exUtil ?env exArgs (exWorldRepo (Some exRoles))
     = Threw (Error (versionMismatchMessage (apmRepo exArgs) ?cb)) (exWorldRepo (Some exRoles)) \<and>
     sublist ?cb (versionMismatchMessage (apmRepo exArgs) ?cb)"
    by (elim conjE) simp
  with h1 h2 h3 h4 h5 show ?thesis by (intro conjI) simp_all
qed

text \<open>
  The claim as first stated has the error name both addresses. It does not: with the
  base address \<^verbatim>\<open>0x1111...\<close> registered, the message of the error thrown does not
  contain the contract address of the repo.
\<close>

theorem version_check_names_only_registered_base:
  "checkInstalledVersion exUtil
     (exEnv ''0x1111111111111111111111111111111111111111'' (Some exRoles) (Inr [])) exArgs
     (exWorldRepo (Some exRoles))
     = Threw (Error (versionMismatchMessage ''voting.aragonpm.eth''
                       ''0x1111111111111111111111111111111111111111''))
         (exWorldRepo (Some exRoles)) \<and>
   contractAddress (exRepo (Some exRoles)) = ''0xb4fa71b3352D48AA93D34d085f87bb4aF0cE6Ab5'' \<and>
   \<not> sublist ''0xb4fa71b3352D48AA93D34d085f87bb4aF0cE6Ab5''
         (versionMismatchMessage ''voting.aragonpm.eth''
            ''0x1111111111111111111111111111111111111111'')"
proof (intro conjI)
  show "checkInstalledVersion exUtil
     (exEnv ''0x1111111111111111111111111111111111111111'' (Some exRoles) (Inr [])) exArgs
     (exWorldRepo (Some exRoles))
     = Threw (Error (versionMismatchMessage ''voting.aragonpm.eth''
                       ''0x1111111111111111111111111111111111111111''))
         (exWorldRepo (Some exRoles))"
    by (simp add: checkInstalledVersion_def ex_defs addressesEqual_def toLowerCase_def lowerChar_def)
  show "contractAddress (exRepo (Some exRoles)) = ''0xb4fa71b3352D48AA93D34d085f87bb4aF0cE6Ab5''"
    by (simp add: exRepo_def)
  show "\<not> sublist ''0xb4fa71b3352D48AA93D34d085f87bb4aF0cE6Ab5''
         (versionMismatchMessage ''voting.aragonpm.eth''
            ''0x1111111111111111111111111111111111111111'')"
    by code_simp
qed

section \<open>The permissions step\<close>

text \<open>
  Claim C3. When the resolved repo declares no roles (the list is missing or empty), the
  step throws the guidance error and leaves the state as it was: no call of
  \<^verbatim>\<open>execTask\<close> has been made.
\<close>

theorem no_roles_throws_before_any_permission_transaction:
  assumes "repo (ctx w) = Some r" "roles r = None \<or> roles r = Some []"
  shows "setPermissionsTask u env dao w = Threw (Error noRolesMessage) w \<and>
         (\<forall>e w'. setPermissionsTask u env dao w = Threw e w' \<longrightarrow> execTasks w' = execTasks w)"
  using assms by (auto simp: setPermissionsTask_def)

theorem no_roles_throws_before_any_permission_transaction_witness:
  "repo (ctx (exWorldDeployed (Some []))) = Some (exRepo (Some [])) \<and>
   roles (exRepo (Some [])) = Some [] \<and>
   setPermissionsTask exUtil (exEnv (ZERO_ADDRESS exUtil) (Some []) (Inr [])) exDao
     (exWorldDeployed (Some []))
     = Threw (Error noRolesMessage) (exWorldDeployed (Some [])) \<and>
   execTasks (exWorldDeployed (Some [])) = []"
proof -
  have h1: "repo (ctx (exWorldDeployed (Some []))) = Some (exRepo (Some []))"
    by (simp add: exWorldDeployed_def emptyContext_def)
  have h2: "roles (exRepo (Some [])) = Some []" by (simp add: exRepo_def)
  then have h2': "roles (exRepo (Some [])) = None \<or> roles (exRepo (Some [])) = Some []" ..
  have c: "setPermissionsTask exUtil (exEnv (ZERO_ADDRESS exUtil) (Some []) (Inr [])) exDao
     (exWorldDeployed (Some []))
     = Threw (Error noRolesMessage) (exWorldDeployed (Some []))"
    using no_roles_throws_before_any_permission_transaction[OF h1 h2'] by (rule conjunct1)
  have e: "execTasks (exWorldDeployed (Some [])) = []" by (simp add: exWorldDeployed_def)
  show ?thesis by (intro conjI h1 h2 c e)
qed

lemma install_tasks_last:
  "drop 4 (install_tasks u env args dao) =
     [\<lparr>title = ''Set permissions'', enabled = setPermissionsEnabled args,
       task = setPermissionsTask u env dao\<rparr>]"
  "drop 5 (install_tasks u env args dao) = []"
  by (simp_all add: install_tasks_def)

lemma install_tasks_4:
  "install_tasks u env args dao ! 4 =
     \<lparr>title = ''Set permissions'', enabled = setPermissionsEnabled args,
      task = setPermissionsTask u env dao\<rparr>"
  by (simp add: install_tasks_def)

lemma runTasks_single:
  "runTasks [s] i w = (if \<not> enabled s w then (Inr w, [])
     else case task s w of Threw e w' \<Rightarrow> (Inl e, [i]) | Completed w' \<Rightarrow> (Inr w', [i])
        | Skipped m w' \<Rightarrow> (Inr w', [i]))"
  by (simp split: outcome.splits)

text \<open>
  Claim C4. The fifth step of the install pipeline is the permissions step; it is enabled
  if and only if the option is \<^verbatim>\<open>open\<close> and the context holds an app address (a
  non-empty string); reached by the runner, its action runs when it is enabled and
  nothing happens when it is not.
\<close>

theorem set_permissions_runs_iff_open_and_app_address:
  "title (install_tasks u env args dao ! 4) = ''Set permissions'' \<and>
   task (install_tasks u env args dao ! 4) = setPermissionsTask u env dao \<and>
   (enabled (install_tasks u env args dao ! 4) w \<longleftrightarrow>
      setPermissions args = Some ''open'' \<and> (\<exists>a. appAddress (ctx w) = Some a \<and> a \<noteq> [])) \<and>
   (enabled (install_tasks u env args dao ! 4) w \<longrightarrow>
      snd (runTasks (drop 4 (install_tasks u env args dao)) 4 w) = [4]) \<and>
   (\<not> enabled (install_tasks u env args dao ! 4) w \<longrightarrow>
      runTasks (drop 4 (install_tasks u env args dao)) 4 w = (Inr w, []))"
proof -
  have e: "setPermissionsEnabled args w \<longleftrightarrow>
      setPermissions args = Some ''open'' \<and> (\<exists>a. appAddress (ctx w) = Some a \<and> a \<noteq> [])"
    by (simp add: setPermissionsEnabled_def truthy_def split: option.splits)
  have r1: "setPermissionsEnabled args w \<Longrightarrow>
      snd (runTasks (drop 4 (install_tasks u env args dao)) 4 w) = [4]"
    unfolding install_tasks_last runTasks_single by (simp split: outcome.splits)
  have r2: "\<not> setPermissionsEnabled args w \<Longrightarrow>
      runTasks (drop 4 (install_tasks u env args dao)) 4 w = (Inr w, [])"
    unfolding install_tasks_last runTasks_single by simp
  show ?thesis
    unfolding install_tasks_4 using e r1 r2 by simp
qed

theorem set_permissions_runs_iff_open_and_app_address_witness:
  "enabled (install_tasks exUtil (exEnv (ZERO_ADDRESS exUtil) (Some exRoles) (Inr [])) exArgs exDao ! 4)
     (exWorldDeployed (Some exRoles)) \<and>
   snd (runTasks (drop 4 (install_tasks exUtil (exEnv (ZERO_ADDRESS exUtil) (Some exRoles) (Inr [])) exArgs exDao))
          4 (exWorldDeployed (Some exRoles))) = [4] \<and>
   \<not> enabled (install_tasks exUtil (exEnv (ZERO_ADDRESS exUtil) (Some exRoles) (Inr [])) exArgs exDao ! 4)
     (exWorldSent (Some exRoles)) \<and>
   runTasks (drop 4 (install_tasks exUtil (exEnv (ZERO_ADDRESS exUtil) (Some exRoles) (Inr [])) exArgs exDao))
          4 (exWorldSent (Some exRoles)) = (Inr (exWorldSent (Some exRoles)), [])"
proof -
  let ?I = "install_tasks exUtil (exEnv (ZERO_ADDRESS exUtil) (Some exRoles) (Inr [])) exArgs exDao"
  note t1 = set_permissions_runs_iff_open_and_app_address
      [of exUtil "exEnv (ZERO_ADDRESS exUtil) (Some exRoles) (Inr [])" exArgs exDao
          "exWorldDeployed (Some exRoles)"]
  note t2 = set_permissions_runs_iff_open_and_app_address
      [of exUtil "exEnv (ZERO_ADDRESS exUtil) (Some exRoles) (Inr [])" exArgs exDao
          "exWorldSent (Some exRoles)"]
  have s1: "setPermissions exArgs = Some ''open'' \<and>
      (\<exists>a. appAddress (ctx (exWorldDeployed (Some exRoles))) = Some a \<and> a \<noteq> [])"
    by (simp add: exArgs_def exWorldDeployed_def emptyContext_def)
  have s2: "\<not> (setPermissions exArgs = Some ''open'' \<and>
      (\<exists>a. appAddress (ctx (exWorldSent (Some exRoles))) = Some a \<and> a \<noteq> []))"
    by (simp add: exWorldSent_def emptyContext_def)
  from t1 s1 have e1: "enabled (?I ! 4) (exWorldDeployed (Some exRoles))" by blast
  with t1 have r1: "snd (runTasks (drop 4 ?I) 4 (exWorldDeployed (Some exRoles))) = [4]" by blast
  from t2 s2 have e2: "\<not> enabled (?I ! 4) (exWorldSent (Some exRoles))" by blast
  with t2 have r2: "runTasks (drop 4 ?I) 4 (exWorldSent (Some exRoles)) = (Inr (exWorldSent (Some exRoles)), [])"
    by blast
  show ?thesis by (intro conjI e1 r1 e2 r2)
qed

lemma ensureAccounts_ok:
  assumes "accounts (ctx w) \<noteq> None \<or> (\<exists>accs. getAccounts env = Inr accs)"
  shows "\<exists>w1. ensureAccounts env w = Inr w1 \<and> execTasks w1 = execTasks w"
proof (cases "accounts (ctx w)")
  case (Some a)
  then show ?thesis by (simp add: ensureAccounts_def)
next
  case None
  with assms obtain accs where "getAccounts env = Inr accs" by auto
  with None show ?thesis by (simp add: ensureAccounts_def)
qed

lemma createPermissions_calls:
  "\<exists>w'. (createPermissions env dao ps w = Completed w' \<or>
          (\<exists>e. createPermissions env dao ps w = Threw e w')) \<and>
        execTasks w' = execTasks w @ map (\<lambda>p. (dao, ACLTransactionPath ''createPermission'' p)) ps"
  by (cases "firstRejection (map (execTask env dao) (map (ACLTransactionPath ''createPermission'') ps))")
     (simp_all add: createPermissions_def Let_def comp_def)

text \<open>
  Claim C6. With a non-empty list of roles, an app address in the context and the
  accounts at hand (already in the context, or the lookup resolves), the step calls
  \<^verbatim>\<open>execTask\<close> exactly once for each declared role, in the order of the roles, with the
  request \<^verbatim>\<open>createPermission\<close> of \<^verbatim>\<open>ANY_ENTITY\<close>, the app address, the bytes of the
  role and \<^verbatim>\<open>NO_MANAGER\<close>; it makes no other call.
\<close>

theorem one_open_permission_per_role:
  assumes "repo (ctx w) = Some r" "roles r = Some rs" "rs \<noteq> []"
    "appAddress (ctx w) = Some app"
    "accounts (ctx w) \<noteq> None \<or> (\<exists>accs. getAccounts env = Inr accs)"
  shows "\<exists>w'. (setPermissionsTask u env dao w = Completed w' \<or>
               (\<exists>e. setPermissionsTask u env dao w = Threw e w')) \<and>
           execTasks w' = execTasks w @
             map (\<lambda>role. (dao, ACLTransactionPath ''createPermission''
                                 [JStr (ANY_ENTITY u), JStr app, JStr (bytes role), JStr (NO_MANAGER u)]))
               rs \<and>
           length (execTasks w') = length (execTasks w) + length rs"
proof -
  from ensureAccounts_ok[OF assms(5)] obtain w1
    where w1: "ensureAccounts env w = Inr w1" and ex: "execTasks w1 = execTasks w" by blast
  let ?ps = "map (permissionParams u (Some app)) rs"
  have step: "setPermissionsTask u env dao w = createPermissions env dao ?ps w1"
    using assms(1-4) w1 by (simp add: setPermissionsTask_def)
  from createPermissions_calls[of env dao ?ps w1] obtain w'
    where out: "createPermissions env dao ?ps w1 = Completed w' \<or>
                (\<exists>e. createPermissions env dao ?ps w1 = Threw e w')"
      and calls: "execTasks w' = execTasks w1 @ map (\<lambda>p. (dao, ACLTransactionPath ''createPermission'' p)) ?ps"
    by blast
  have calls': "execTasks w' = execTasks w @
             map (\<lambda>role. (dao, ACLTransactionPath ''createPermission''
                                 [JStr (ANY_ENTITY u), JStr app, JStr (bytes role), JStr (NO_MANAGER u)]))
               rs"
    unfolding calls ex by (simp add: permissionParams_def optStr_def comp_def)
  then have len: "length (execTasks w') = length (execTasks w) + length rs" by simp
  from out have out': "setPermissionsTask u env dao w = Completed w' \<or>
               (\<exists>e. setPermissionsTask u env dao w = Threw e w')"
    unfolding step .
  from out' calls' len show ?thesis by (intro exI[of _ w'] conjI)
qed

theorem one_open_permission_per_role_witness:
  "repo (ctx (exWorldDeployed (Some exRoles))) = Some (exRepo (Some exRoles)) \<and>
   roles (exRepo (Some exRoles)) = Some exRoles \<and> exRoles \<noteq> [] \<and>
   appAddress (ctx (exWorldDeployed (Some exRoles))) = Some ''0x7FB7a9D5Dfa0a7A2D6c7A0B5fbb5d2e1a1C6E2f3'' \<and>
   getAccounts (exEnv (ZERO_ADDRESS exUtil) (Some exRoles) (Inr [''0xb4124cEB3451635DAcedd11767f004d8a28c6eE7'']))
     = Inr [''0xb4124cEB3451635DAcedd11767f004d8a28c6eE7''] \<and>
   (\<exists>w'. (setPermissionsTask exUtil
             (exEnv (ZERO_ADDRESS exUtil) (Some exRoles) (Inr [''0xb4124cEB3451635DAcedd11767f004d8a28c6eE7'']))
             exDao (exWorldDeployed (Some exRoles)) = Completed w' \<or>
           (\<exists>e. setPermissionsTask exUtil
             (exEnv (ZERO_ADDRESS exUtil) (Some exRoles) (Inr [''0xb4124cEB3451635DAcedd11767f004d8a28c6eE7'']))
             exDao (exWorldDeployed (Some exRoles)) = Threw e w')) \<and>
      execTasks w' =
        [(exDao, ACLTransactionPath ''createPermission''
            [JStr ''0xffffffffffffffffffffffffffffffffffffffff'',
             JStr ''0x7FB7a9D5Dfa0a7A2D6c7A0B5fbb5d2e1a1C6E2f3'',
             JStr ''0xe7dcd7275292e064d090fbc5f3bd7995be23b502c1fed5cd94cfddbbdcd32bbc'',
             JStr ''0x0000000000000000000000000000000000000000'']),
         (exDao, ACLTransactionPath ''createPermission''
            [JStr ''0xffffffffffffffffffffffffffffffffffffffff'',
             JStr ''0x7FB7a9D5Dfa0a7A2D6c7A0B5fbb5d2e1a1C6E2f3'',
             JStr ''0xda3972983e62bdf826c4b807c4c9c2b8a941e1f83dfa76d53d6aeac11e1be650'',
             JStr ''0x0000000000000000000000000000000000000000''])])"
proof -
  let ?env = "exEnv (ZERO_ADDRESS exUtil) (Some exRoles) (Inr [''0xb4124cEB3451635DAcedd11767f004d8a28c6eE7''])"
  let ?w = "exWorldDeployed (Some exRoles)"
  have h1: "repo (ctx ?w) = Some (exRepo (Some exRoles))"
    by (simp add: exWorldDeployed_def emptyContext_def)
  have h2: "roles (exRepo (Some exRoles)) = Some exRoles" by (simp add: exRepo_def)
  have h3: "exRoles \<noteq> []" by (simp add: exRoles_def)
  have h4: "appAddress (ctx ?w) = Some ''0x7FB7a9D5Dfa0a7A2D6c7A0B5fbb5d2e1a1C6E2f3''"
    by (simp add: exWorldDeployed_def emptyContext_def)
  have h5: "getAccounts ?env = Inr [''0xb4124cEB3451635DAcedd11767f004d8a28c6eE7'']"
    by (simp add: exEnv_def)
  then have h5': "accounts (ctx ?w) \<noteq> None \<or> (\<exists>accs. getAccounts ?env = Inr accs)" by blast
  from one_open_permission_per_role[OF h1 h2 h3 h4 h5', of exUtil exDao]
  obtain w' where out: "setPermissionsTask exUtil ?env exDao ?w = Completed w' \<or>
           (\<exists>e. setPermissionsTask exUtil ?env exDao ?w = Threw e w')"
    and calls: "execTasks w' = execTasks ?w @
             map (\<lambda>role. (exDao, ACLTransactionPath ''createPermission''
                    [JStr (ANY_ENTITY exUtil), JStr ''0x7FB7a9D5Dfa0a7A2D6c7A0B5fbb5d2e1a1C6E2f3'',
                     JStr (bytes role), JStr (NO_MANAGER exUtil)])) exRoles"
    by blast
  from calls have calls': "execTasks w' =
        [(exDao, ACLTransactionPath ''createPermission''
            [JStr ''0xffffffffffffffffffffffffffffffffffffffff'',
             JStr ''0x7FB7a9D5Dfa0a7A2D6c7A0B5fbb5d2e1a1C6E2f3'',
             JStr ''0xe7dcd7275292e064d090fbc5f3bd7995be23b502c1fed5cd94cfddbbdcd32bbc'',
             JStr ''0x0000000000000000000000000000000000000000'']),
         (exDao, ACLTransactionPath ''createPermission''
            [JStr ''0xffffffffffffffffffffffffffffffffffffffff'',
             JStr ''0x7FB7a9D5Dfa0a7A2D6c7A0B5fbb5d2e1a1C6E2f3'',
             JStr ''0xda3972983e62bdf826c4b807c4c9c2b8a941e1f83dfa76d53d6aeac11e1be650'',
             JStr ''0x0000000000000000000000000000000000000000''])]"
    by (simp add: exWorldDeployed_def exRoles_def exUtil_def)
  from out calls' have ex: "\<exists>w'. (setPermissionsTask exUtil ?env exDao ?w = Completed w' \<or>
           (\<exists>e. setPermissionsTask exUtil ?env exDao ?w = Threw e w')) \<and>
      execTasks w' =
        [(exDao, ACLTransactionPath ''createPermission''
            [JStr ''0xffffffffffffffffffffffffffffffffffffffff'',
             JStr ''0x7FB7a9D5Dfa0a7A2D6c7A0B5fbb5d2e1a1C6E2f3'',
             JStr ''0xe7dcd7275292e064d090fbc5f3bd7995be23b502c1fed5cd94cfddbbdcd32bbc'',
             JStr ''0x0000000000000000000000000000000000000000'']),
         (exDao, ACLTransactionPath ''createPermission''
            [JStr ''0xffffffffffffffffffffffffffffffffffffffff'',
             JStr ''0x7FB7a9D5Dfa0a7A2D6c7A0B5fbb5d2e1a1C6E2f3'',
             JStr ''0xda3972983e62bdf826c4b807c4c9c2b8a941e1f83dfa76d53d6aeac11e1be650'',
             JStr ''0x0000000000000000000000000000000000000000''])]"
    by (intro exI[of _ w'] conjI)
  show ?thesis by (intro conjI h1 h2 h3 h4 h5 ex)
qed

section \<open>Reading the deployed app from the receipt\<close>

lemma fetchDeployedApp_resolved:
  assumes "find isNewAppProxyEvent (kernelABI env) = Some logABI" "receipt (ctx w) = Some rcpt"
  shows "fetchDeployedApp env dao w =
     (case find (isDeployLog (sha3 env (logSignature logABI)) dao) (logs rcpt) of
        None \<Rightarrow> Skipped ''App wasn't deployed in transaction.'' w
      | Some deployLog \<Rightarrow>
          (case decodeLog env (abi_inputs logABI) (data deployLog) of
             Inl e \<Rightarrow> Threw e w
           | Inr log \<Rightarrow> Completed (w\<lparr>ctx := (ctx w)\<lparr>appAddress := log ''proxy''\<rparr>\<rparr>)))"
  using assms by (simp add: fetchDeployedApp_def)

lemma find_first_match:
  "(\<exists>x\<in>set xs. P x) \<Longrightarrow> \<exists>x. find P xs = Some x \<and> x \<in> set xs \<and> P x"
  by (induction xs) auto

lemma find_no_match: "\<not> (\<exists>x\<in>set xs. P x) \<Longrightarrow> find P xs = None"
  by (induction xs) auto

lemma logSignature_NewAppProxy:
  "find isNewAppProxyEvent es = Some logABI \<Longrightarrow>
   logSignature logABI = ''NewAppProxy('' @ join '','' (map in_type (abi_inputs logABI)) @ '')''"
proof -
  assume "find isNewAppProxyEvent es = Some logABI"
  then have "isNewAppProxyEvent logABI" by (auto simp: find_Some_iff)
  then show ?thesis by (simp add: isNewAppProxyEvent_def logSignature_def showStr_def)
qed

lemma install_tasks_from_3:
  "drop 3 (install_tasks u env args dao) =
     \<lparr>title = ''Fetching deployed app'', enabled = (\<lambda>w. True), task = fetchDeployedApp env dao\<rparr>
     # drop 4 (install_tasks u env args dao)"
  by (simp add: install_tasks_def)

text \<open>
  Claim C5. With the \<^verbatim>\<open>NewAppProxy\<close> event in the kernel ABI and a receipt in the
  context: the topic looked for is the hash of the signature of that event; if the
  receipt has a log with that first topic whose address equals the DAO, the first such
  log is taken and, once decoded, its \<^verbatim>\<open>proxy\<close> field becomes \<^verbatim>\<open>ctx.appAddress\<close>; if
  it has none, the step skips with its warning, the state is unchanged and the runner
  goes on with the next step.
\<close>

theorem deployed_app_read_from_matching_log:
  assumes "find isNewAppProxyEvent (kernelABI env) = Some logABI" "receipt (ctx w) = Some rcpt"
  shows "logSignature logABI = ''NewAppProxy('' @ join '','' (map in_type (abi_inputs logABI)) @ '')'' \<and>
     ((\<exists>l\<in>set (logs rcpt). firstTopicIs (topics l) (sha3 env (logSignature logABI)) \<and>
                             addressesEqual dao (address l)) \<longrightarrow>
        (\<exists>l. find (isDeployLog (sha3 env (logSignature logABI)) dao) (logs rcpt) = Some l \<and>
             l \<in> set (logs rcpt) \<and>
             firstTopicIs (topics l) (sha3 env (logSignature logABI)) \<and>
             addressesEqual dao (address l) \<and>
             (\<forall>log. decodeLog env (abi_inputs logABI) (data l) = Inr log \<longrightarrow>
                fetchDeployedApp env dao w
                  = Completed (w\<lparr>ctx := (ctx w)\<lparr>appAddress := log ''proxy''\<rparr>\<rparr>)))) \<and>
     (\<not> (\<exists>l\<in>set (logs rcpt). firstTopicIs (topics l) (sha3 env (logSignature logABI)) \<and>
                               addressesEqual dao (address l)) \<longrightarrow>
        fetchDeployedApp env dao w = Skipped ''App wasn't deployed in transaction.'' w \<and>
        runTasks (drop 3 (install_tasks u env args dao)) 3 w
          = (case runTasks (drop 4 (install_tasks u env args dao)) 4 w of (r, tr) \<Rightarrow> (r, 3 # tr)))"
proof (intro conjI impI)
  let ?P = "isDeployLog (sha3 env (logSignature logABI)) dao"
  show "logSignature logABI = ''NewAppProxy('' @ join '','' (map in_type (abi_inputs logABI)) @ '')''"
    using assms(1) by (rule logSignature_NewAppProxy)
  {
    assume "\<exists>l\<in>set (logs rcpt). firstTopicIs (topics l) (sha3 env (logSignature logABI)) \<and>
                             addressesEqual dao (address l)"
    then have "\<exists>l\<in>set (logs rcpt). ?P l" by (simp add: isDeployLog_def)
    from find_first_match[OF this]
    obtain l where l: "find ?P (logs rcpt) = Some l" "l \<in> set (logs rcpt)" "?P l"
      by (elim exE conjE)
    have "\<forall>log. decodeLog env (abi_inputs logABI) (data l) = Inr log \<longrightarrow>
                fetchDeployedApp env dao w
                  = Completed (w\<lparr>ctx := (ctx w)\<lparr>appAddress := log ''proxy''\<rparr>\<rparr>)"
      using fetchDeployedApp_resolved[OF assms, of dao] l(1) by simp
    moreover from l(3) have "firstTopicIs (topics l) (sha3 env (logSignature logABI))"
      and "addressesEqual dao (address l)" by (simp_all add: isDeployLog_def)
    ultimately show "\<exists>l. find ?P (logs rcpt) = Some l \<and> l \<in> set (logs rcpt) \<and>
             firstTopicIs (topics l) (sha3 env (logSignature logABI)) \<and>
             addressesEqual dao (address l) \<and>
             (\<forall>log. decodeLog env (abi_inputs logABI) (data l) = Inr log \<longrightarrow>
                fetchDeployedApp env dao w
                  = Completed (w\<lparr>ctx := (ctx w)\<lparr>appAddress := log ''proxy''\<rparr>\<rparr>))"
      using l(1,2) by (intro exI[of _ l] conjI)
  }
  {
    assume "\<not> (\<exists>l\<in>set (logs rcpt). firstTopicIs (topics l) (sha3 env (logSignature logABI)) \<and>
                               addressesEqual dao (address l))"
    then have "\<not> (\<exists>l\<in>set (logs rcpt). ?P l)" by (simp add: isDeployLog_def)
    then have "find ?P (logs rcpt) = None" by (rule find_no_match)
    then show s: "fetchDeployedApp env dao w = Skipped ''App wasn't deployed in transaction.'' w"
      using fetchDeployedApp_resolved[OF assms, of dao] by simp
    then show "runTasks (drop 3 (install_tasks u env args dao)) 3 w
          = (case runTasks (drop 4 (install_tasks u env args dao)) 4 w of (r, tr) \<Rightarrow> (r, 3 # tr))"
      unfolding install_tasks_from_3 by simp
  }
qed

theorem deployed_app_read_from_matching_log_witness:
  "find isNewAppProxyEvent (kernelABI (exEnv (ZERO_ADDRESS exUtil) (Some exRoles) (Inr [])))
     = Some (exKernelABI ! 1) \<and>
   receipt (ctx (exWorldSent (Some exRoles))) = Some exReceipt \<and>
   logSignature (exKernelABI ! 1) = ''NewAppProxy(address,bool,bytes32)'' \<and>
   find (isDeployLog (sha3 (exEnv (ZERO_ADDRESS exUtil) (Some exRoles) (Inr []))
                        (logSignature (exKernelABI ! 1))) exDao) (logs exReceipt)
     = Some (logs exReceipt ! 1) \<and>
   decodeLog (exEnv (ZERO_ADDRESS exUtil) (Some exRoles) (Inr []))
       (abi_inputs (exKernelABI ! 1)) (data (logs exReceipt ! 1))
     = Inr (map_of [(''proxy'', ''0x7FB7a9D5Dfa0a7A2D6c7A0B5fbb5d2e1a1C6E2f3'')]) \<and>
   fetchDeployedApp (exEnv (ZERO_ADDRESS exUtil) (Some exRoles) (Inr [])) exDao
       (exWorldSent (Some exRoles))
     = Completed (exWorldDeployed (Some exRoles))"
proof -
  let ?env = "exEnv (ZERO_ADDRESS exUtil) (Some exRoles) (Inr [])"
  let ?w = "exWorldSent (Some exRoles)"
  let ?abi = "exKernelABI ! 1"
  let ?log = "map_of [(''proxy'', ''0x7FB7a9D5Dfa0a7A2D6c7A0B5fbb5d2e1a1C6E2f3'')]"
  have h1: "find isNewAppProxyEvent (kernelABI ?env) = Some ?abi"
    by (simp add: exEnv_def exKernelABI_def isNewAppProxyEvent_def)
  have h2: "receipt (ctx ?w) = Some exReceipt"
    by (simp add: exWorldSent_def emptyContext_def)
  have sig: "logSignature ?abi = ''NewAppProxy(address,bool,bytes32)''"
    by (simp add: exKernelABI_def logSignature_def showStr_def)
  have topic: "sha3 ?env (logSignature ?abi) = ''sha3:NewAppProxy(address,bool,bytes32)''"
    unfolding sig by (simp add: exEnv_def)
  have fnd: "find (isDeployLog (sha3 ?env (logSignature ?abi)) exDao) (logs exReceipt)
     = Some (logs exReceipt ! 1)"
    unfolding topic
    by (simp add: exReceipt_def isDeployLog_def firstTopicIs_def exDao_def addressesEqual_def
        toLowerCase_def lowerChar_def)
  have dec: "decodeLog ?env (abi_inputs ?abi) (data (logs exReceipt ! 1)) = Inr ?log"
    by (simp add: exEnv_def exReceipt_def)
  have ex: "\<exists>l\<in>set (logs exReceipt). firstTopicIs (topics l) (sha3 ?env (logSignature ?abi)) \<and>
              addressesEqual exDao (address l)"
    unfolding topic
    by (simp add: exReceipt_def firstTopicIs_def exDao_def addressesEqual_def
        toLowerCase_def lowerChar_def)
  note t = deployed_app_read_from_matching_log[OF h1 h2, of exDao exUtil exArgs]
  from t ex obtain l where l: "find (isDeployLog (sha3 ?env (logSignature ?abi)) exDao) (logs exReceipt) = Some l"
    and step: "\<forall>log. decodeLog ?env (abi_inputs ?abi) (data l) = Inr log \<longrightarrow>
                fetchDeployedApp ?env exDao ?w
                  = Completed (?w\<lparr>ctx := (ctx ?w)\<lparr>appAddress := log ''proxy''\<rparr>\<rparr>)"
    by blast
  from l fnd have "l = logs exReceipt ! 1" by simp
  with step dec have "fetchDeployedApp ?env exDao ?w
                  = Completed (?w\<lparr>ctx := (ctx ?w)\<lparr>appAddress := ?log ''proxy''\<rparr>\<rparr>)"
    by blast
  also have "?w\<lparr>ctx := (ctx ?w)\<lparr>appAddress := ?log ''proxy''\<rparr>\<rparr> = exWorldDeployed (Some exRoles)"
    by (simp add: exWorldSent_def exWorldDeployed_def emptyContext_def)
  finally have c: "fetchDeployedApp ?env exDao ?w = Completed (exWorldDeployed (Some exRoles))" .
  show ?thesis by (intro conjI h1 h2 sig fnd dec c)
qed

section \<open>The token command\<close>

lemma token_task_resolved:
  "eth_getAccounts env = Inr accs \<Longrightarrow> net_getId env = Inr chainId \<Longrightarrow>
   token_task u env args =
     Inr (token_tasks u env args (case accs of [] \<Rightarrow> None | x # _ \<Rightarrow> Some x)
            (defaultTokenFactoryAddress chainId (tokenFactoryAddress args))
            (parseStringIfPossible env (transferEnabled args)))"
  by (simp add: token_task_def)

text \<open>
  Claim C7. With no factory address supplied, chain 1 gives the mainnet constant and
  chain 4 the Rinkeby constant; a supplied address (a non-empty string) is kept on every
  chain; and the task builds its pipeline with the address so defaulted.
\<close>

theorem token_factory_defaults_by_chain:
  "defaultTokenFactoryAddress 1 None = Some ''0x909d05f384d0663ed4be59863815ab43b4f347ec'' \<and>
   defaultTokenFactoryAddress 4 None = Some ''0xad991658443c56b3dE2D7d7f5d8C68F339aEef29'' \<and>
   (a \<noteq> [] \<longrightarrow> defaultTokenFactoryAddress chainId (Some a) = Some a) \<and>
   (eth_getAccounts env = Inr accs \<and> net_getId env = Inr chainId \<longrightarrow>
      token_task u env args =
        Inr (token_tasks u env args (case accs of [] \<Rightarrow> None | x # _ \<Rightarrow> Some x)
               (defaultTokenFactoryAddress chainId (tokenFactoryAddress args))
               (parseStringIfPossible env (transferEnabled args))))"
  by (simp add: defaultTokenFactoryAddress_def js_or_def truthy_def token_task_def Let_def
      MAINNET_MINIME_TOKEN_FACTORY_def RINKEBY_MINIME_TOKEN_FACTORY_def)

theorem token_factory_defaults_by_chain_witness:
  "''0xb4fa71b3352D48AA93D34d085f87bb4aF0cE6Ab5'' \<noteq> [] \<and>
   defaultTokenFactoryAddress 1 (Some ''0xb4fa71b3352D48AA93D34d085f87bb4aF0cE6Ab5'')
     = Some ''0xb4fa71b3352D48AA93D34d085f87bb4aF0cE6Ab5'' \<and>
   eth_getAccounts (exTokenEnv 4 (Inr 3000000)) = Inr [''0xb4124cEB3451635DAcedd11767f004d8a28c6eE7''] \<and>
   net_getId (exTokenEnv 4 (Inr 3000000)) = Inr 4 \<and>
   token_task exUtil (exTokenEnv 4 (Inr 3000000)) (exTokenArgs None)
     = Inr (token_tasks exUtil (exTokenEnv 4 (Inr 3000000)) (exTokenArgs None)
              (Some ''0xb4124cEB3451635DAcedd11767f004d8a28c6eE7'')
              (Some ''0xad991658443c56b3dE2D7d7f5d8C68F339aEef29'') (JBool True))"
proof -
  let ?a = "''0xb4fa71b3352D48AA93D34d085f87bb4aF0cE6Ab5''"
  let ?env = "exTokenEnv 4 (Inr 3000000)"
  note t1 = token_factory_defaults_by_chain[of ?a 1 ?env "[''0xb4124cEB3451635DAcedd11767f004d8a28c6eE7'']" exUtil "exTokenArgs None"]
  note t4 = token_factory_defaults_by_chain[of ?a 4 ?env "[''0xb4124cEB3451635DAcedd11767f004d8a28c6eE7'']" exUtil "exTokenArgs None"]
  have h0: "?a \<noteq> []" by simp
  have h1: "eth_getAccounts ?env = Inr [''0xb4124cEB3451635DAcedd11767f004d8a28c6eE7'']"
    by (simp add: exTokenEnv_def)
  have h2: "net_getId ?env = Inr 4" by (simp add: exTokenEnv_def)
  from t1 h0 have c1: "defaultTokenFactoryAddress 1 (Some ?a) = Some ?a" by blast
  from t4 have d4: "defaultTokenFactoryAddress 4 None = Some ''0xad991658443c56b3dE2D7d7f5d8C68F339aEef29''"
    by blast
  from t4 h1 h2 have "token_task exUtil ?env (exTokenArgs None) =
        Inr (token_tasks exUtil ?env (exTokenArgs None)
               (case [''0xb4124cEB3451635DAcedd11767f004d8a28c6eE7''] of [] \<Rightarrow> None | x # _ \<Rightarrow> Some x)
               (defaultTokenFactoryAddress 4 (tokenFactoryAddress (exTokenArgs None)))
               (parseStringIfPossible ?env (transferEnabled (exTokenArgs None))))"
    by blast
  then have c2: "token_task exUtil ?env (exTokenArgs None)
     = Inr (token_tasks exUtil ?env (exTokenArgs None)
              (Some ''0xb4124cEB3451635DAcedd11767f004d8a28c6eE7'')
              (Some ''0xad991658443c56b3dE2D7d7f5d8C68F339aEef29'') (JBool True))"
    using d4 by (simp add: exTokenArgs_def exTokenEnv_def)
  show ?thesis by (intro conjI h0 c1 h1 h2 c2)
qed

lemma deployAndSend_Completed:
  "deployAndSend env from tx onHash onReceipt w = Completed w1 \<Longrightarrow>
   \<exists>g h a. send env \<lparr>send_tx = tx, send_from = from, send_gas = g\<rparr> = Mined h a \<and>
           tctx w1 = onReceipt a (onHash h (tctx w))"
proof -
  assume c: "deployAndSend env from tx onHash onReceipt w = Completed w1"
  then obtain est where est: "estimateGas env tx = Inr est"
    by (cases "estimateGas env tx") (simp_all add: deployAndSend_def)
  with c obtain g where g: "getRecommendedGasLimit env est = Inr g"
    by (cases "getRecommendedGasLimit env est") (simp_all add: deployAndSend_def)
  let ?call = "\<lparr>send_tx = tx, send_from = from, send_gas = g\<rparr>"
  from c est g obtain h a where m: "send env ?call = Mined h a"
    by (cases "send env ?call") (simp_all add: deployAndSend_def Let_def split: option.splits)
  from c est g m have "tctx w1 = onReceipt a (onHash h (tctx w))"
    by (auto simp: deployAndSend_def Let_def)
  with m show ?thesis by blast
qed

lemma deployFactory_Completed:
  "deployFactory env from w = Completed w1 \<Longrightarrow>
   \<exists>g h a. send env \<lparr>send_tx = \<lparr>deploy_data = bytecode (getContract env ''@aragon/apps-shared-minime'' ''MiniMeTokenFactory''),
                                  deploy_arguments = None\<rparr>,
                       send_from = from, send_gas = g\<rparr> = Mined h a \<and>
           factoryAddress (tctx w1) = Some a"
proof -
  assume "deployFactory env from w = Completed w1"
  then have "deployAndSend env from
       \<lparr>deploy_data = bytecode (getContract env ''@aragon/apps-shared-minime'' ''MiniMeTokenFactory''),
        deploy_arguments = None\<rparr>
       (\<lambda>h c. c\<lparr>factoryTxHash := Some h\<rparr>) (\<lambda>a c. c\<lparr>factoryAddress := Some a\<rparr>) w = Completed w1"
    by (simp add: deployFactory_def Let_def)
  from deployAndSend_Completed[OF this] obtain g h a
    where "send env \<lparr>send_tx = \<lparr>deploy_data = bytecode (getContract env ''@aragon/apps-shared-minime'' ''MiniMeTokenFactory''),
                                  deploy_arguments = None\<rparr>,
                       send_from = from, send_gas = g\<rparr> = Mined h a"
      and "tctx w1 = (tctx w)\<lparr>factoryTxHash := Some h, factoryAddress := Some a\<rparr>"
    by blast
  then have "send env \<lparr>send_tx = \<lparr>deploy_data = bytecode (getContract env ''@aragon/apps-shared-minime'' ''MiniMeTokenFactory''),
                                  deploy_arguments = None\<rparr>,
                       send_from = from, send_gas = g\<rparr> = Mined h a \<and>
           factoryAddress (tctx w1) = Some a" by simp
  then show ?thesis by blast
qed

lemma token_tasks_steps:
  "token_tasks u env args from tfa flag ! 0 =
     \<lparr>title = ''Deploy the MiniMeTokenFactory contract'', enabled = factoryEnabled env tfa,
      task = deployFactory env from\<rparr>"
  "token_tasks u env args from tfa flag ! 1 =
     \<lparr>title = ''Deploy the MiniMeToken contract'', enabled = (\<lambda>w. True),
      task = deployToken u env args from tfa flag\<rparr>"
  "length (token_tasks u env args from tfa flag) = 2"
  by (simp_all add: token_tasks_def)

lemma token_run_factory_first:
  "\<not> isAddress env tfa \<Longrightarrow>
   run (token_tasks u env args from tfa flag) w0 =
     (case deployFactory env from w0 of
        Threw e w' \<Rightarrow> (Inl e, [0])
      | Completed w \<Rightarrow>
          (case runTasks (drop 1 (token_tasks u env args from tfa flag)) 1 w of
             (r, tr) \<Rightarrow> (r, 0 # tr))
      | Skipped m w \<Rightarrow>
          (case runTasks (drop 1 (token_tasks u env args from tfa flag)) 1 w of
             (r, tr) \<Rightarrow> (r, 0 # tr)))"
  by (simp add: run_def token_tasks_def factoryEnabled_def split: outcome.splits)

text \<open>
  Claim C8. The factory step is enabled if and only if the factory address handed to the
  pipeline is not a valid address, and the task hands it the defaulted address; the token
  step has no condition. When the factory step runs and completes, the context holds the
  contract address of its receipt and the run goes on from that context, where the token
  deployment carries that address; when the context holds no factory address, as after
  a factory step that did not run, it carries the handed address. The other arguments
  are the zero address, 0, the token name, the decimal units, the symbol and the
  transfer flag.
\<close>

theorem token_factory_step_and_token_arguments:
  "(enabled (token_tasks u env args from tfa flag ! 0) w \<longleftrightarrow> \<not> isAddress env tfa) \<and>
   task (token_tasks u env args from tfa flag ! 0) = deployFactory env from \<and>
   (eth_getAccounts env = Inr accs \<and> net_getId env = Inr chainId \<longrightarrow>
      (\<exists>steps. token_task u env args = Inr steps \<and>
         (enabled (steps ! 0) w \<longleftrightarrow>
            \<not> isAddress env (defaultTokenFactoryAddress chainId (tokenFactoryAddress args))))) \<and>
   enabled (token_tasks u env args from tfa flag ! 1) w \<and>
   length (token_tasks u env args from tfa flag) = 2 \<and>
   task (token_tasks u env args from tfa flag ! 1) w
     = deployAndSend env from
         \<lparr>deploy_data = bytecode (getContract env ''@aragon/apps-shared-minime'' ''MiniMeToken''),
          deploy_arguments = Some (tokenArguments u args tfa flag (tctx w))\<rparr>
         (\<lambda>h c. c\<lparr>tokenTxHash := Some h\<rparr>) (\<lambda>a c. c\<lparr>tokenAddress := Some a\<rparr>) w \<and>
   (\<not> isAddress env tfa \<longrightarrow>
      run (token_tasks u env args from tfa flag) w0 =
        (case deployFactory env from w0 of
           Threw e w' \<Rightarrow> (Inl e, [0])
         | Completed w \<Rightarrow>
             (case runTasks (drop 1 (token_tasks u env args from tfa flag)) 1 w of
                (r, tr) \<Rightarrow> (r, 0 # tr))
         | Skipped m w \<Rightarrow>
             (case runTasks (drop 1 (token_tasks u env args from tfa flag)) 1 w of
                (r, tr) \<Rightarrow> (r, 0 # tr)))) \<and>
   (deployFactory env from w0 = Completed w \<longrightarrow>
      (\<exists>g h a.
         send env \<lparr>send_tx = \<lparr>deploy_data = bytecode (getContract env ''@aragon/apps-shared-minime''
                                                      ''MiniMeTokenFactory''),
                               deploy_arguments = None\<rparr>,
                    send_from = from, send_gas = g\<rparr> = Mined h a \<and>
         factoryAddress (tctx w) = Some a \<and>
         (a \<noteq> [] \<longrightarrow>
            tokenArguments u args tfa flag (tctx w)
              = [JStr a, JStr (ZERO_ADDRESS u), JNum 0, JStr (tokenName args), decimalUnits args,
                 JStr (symbol args), flag]))) \<and>
   (isAddress env tfa \<longrightarrow>
      run (token_tasks u env args from tfa flag) w
        = runTasks (drop 1 (token_tasks u env args from tfa flag)) 1 w) \<and>
   (factoryAddress (tctx w) = None \<longrightarrow>
      tokenArguments u args tfa flag (tctx w)
        = [optStr tfa, JStr (ZERO_ADDRESS u), JNum 0, JStr (tokenName args), decimalUnits args,
           JStr (symbol args), flag])"
proof (intro conjI impI)
  show "enabled (token_tasks u env args from tfa flag ! 0) w \<longleftrightarrow> \<not> isAddress env tfa"
    by (simp add: token_tasks_steps factoryEnabled_def)
  show "task (token_tasks u env args from tfa flag ! 0) = deployFactory env from"
    by (simp add: token_tasks_steps)
  show "\<exists>steps. token_task u env args = Inr steps \<and>
         (enabled (steps ! 0) w \<longleftrightarrow>
            \<not> isAddress env (defaultTokenFactoryAddress chainId (tokenFactoryAddress args)))"
    if "eth_getAccounts env = Inr accs \<and> net_getId env = Inr chainId"
  proof -
    from that have "token_task u env args =
        Inr (token_tasks u env args (case accs of [] \<Rightarrow> None | x # _ \<Rightarrow> Some x)
            (defaultTokenFactoryAddress chainId (tokenFactoryAddress args))
            (parseStringIfPossible env (transferEnabled args)))"
      by (simp add: token_task_resolved)
    then show ?thesis by (simp add: token_tasks_steps factoryEnabled_def)
  qed
  show "enabled (token_tasks u env args from tfa flag ! 1) w"
    by (simp only: token_tasks_steps) simp
  show "length (token_tasks u env args from tfa flag) = 2"
    by (rule token_tasks_steps)
  show "task (token_tasks u env args from tfa flag ! 1) w
     = deployAndSend env from
         \<lparr>deploy_data = bytecode (getContract env ''@aragon/apps-shared-minime'' ''MiniMeToken''),
          deploy_arguments = Some (tokenArguments u args tfa flag (tctx w))\<rparr>
         (\<lambda>h c. c\<lparr>tokenTxHash := Some h\<rparr>) (\<lambda>a c. c\<lparr>tokenAddress := Some a\<rparr>) w"
    by (simp only: token_tasks_steps) (simp add: deployToken_def Let_def)
  show "run (token_tasks u env args from tfa flag) w0 =
        (case deployFactory env from w0 of
           Threw e w' \<Rightarrow> (Inl e, [0])
         | Completed w \<Rightarrow>
             (case runTasks (drop 1 (token_tasks u env args from tfa flag)) 1 w of
                (r, tr) \<Rightarrow> (r, 0 # tr))
         | Skipped m w \<Rightarrow>
             (case runTasks (drop 1 (token_tasks u env args from tfa flag)) 1 w of
                (r, tr) \<Rightarrow> (r, 0 # tr)))" if "\<not> isAddress env tfa"
    using that by (rule token_run_factory_first)
  show "\<exists>g h a.
         send env \<lparr>send_tx = \<lparr>deploy_data = bytecode (getContract env ''@aragon/apps-shared-minime''
                                                      ''MiniMeTokenFactory''),
                               deploy_arguments = None\<rparr>,
                    send_from = from, send_gas = g\<rparr> = Mined h a \<and>
         factoryAddress (tctx w) = Some a \<and>
         (a \<noteq> [] \<longrightarrow>
            tokenArguments u args tfa flag (tctx w)
              = [JStr a, JStr (ZERO_ADDRESS u), JNum 0, JStr (tokenName args), decimalUnits args,
                 JStr (symbol args), flag])" if "deployFactory env from w0 = Completed w"
  proof -
    from deployFactory_Completed[OF that] obtain g h a
      where m: "send env \<lparr>send_tx = \<lparr>deploy_data = bytecode (getContract env ''@aragon/apps-shared-minime''
                                                      ''MiniMeTokenFactory''),
                               deploy_arguments = None\<rparr>,
                    send_from = from, send_gas = g\<rparr> = Mined h a"
        and f: "factoryAddress (tctx w) = Some a" by blast
    from f have "a \<noteq> [] \<longrightarrow>
            tokenArguments u args tfa flag (tctx w)
              = [JStr a, JStr (ZERO_ADDRESS u), JNum 0, JStr (tokenName args), decimalUnits args,
                 JStr (symbol args), flag]"
      by (simp add: tokenArguments_def js_or_def truthy_def optStr_def)
    with m f show ?thesis by (intro exI[of _ g] exI[of _ h] exI[of _ a] conjI)
  qed
  show "run (token_tasks u env args from tfa flag) w
        = runTasks (drop 1 (token_tasks u env args from tfa flag)) 1 w" if "isAddress env tfa"
    using that by (simp add: run_def token_tasks_def factoryEnabled_def)
  show "tokenArguments u args tfa flag (tctx w)
        = [optStr tfa, JStr (ZERO_ADDRESS u), JNum 0, JStr (tokenName args), decimalUnits args,
           JStr (symbol args), flag]" if "factoryAddress (tctx w) = None"
    using that by (simp add: tokenArguments_def js_or_def truthy_def)
qed

theorem token_factory_step_and_token_arguments_witness:
  "\<not> isAddress (exTokenEnv 5 (Inr 3000000)) None \<and>
   enabled (token_tasks exUtil (exTokenEnv 5 (Inr 3000000)) (exTokenArgs None)
              (Some ''0xb4124cEB3451635DAcedd11767f004d8a28c6eE7'') None (JBool True) ! 0)
     emptyTokenWorld \<and>
   deployFactory (exTokenEnv 5 (Inr 3000000)) (Some ''0xb4124cEB3451635DAcedd11767f004d8a28c6eE7'')
     emptyTokenWorld = Completed exTokenWorldFactory \<and>
   factoryAddress (tctx exTokenWorldFactory) = Some ''0x1902a0410EFe699487Dd85F12321aD672bE4ada2'' \<and>
   tokenArguments exUtil (exTokenArgs None) None (JBool True) (tctx exTokenWorldFactory)
     = [JStr ''0x1902a0410EFe699487Dd85F12321aD672bE4ada2'',
        JStr ''0x0000000000000000000000000000000000000000'', JNum 0, JStr ''Member'', JNum 18,
        JStr ''MBR'', JBool True] \<and>
   run (token_tasks exUtil (exTokenEnv 5 (Inr 3000000)) (exTokenArgs None)
          (Some ''0xb4124cEB3451635DAcedd11767f004d8a28c6eE7'') None (JBool True)) emptyTokenWorld
     = (case runTasks (drop 1 (token_tasks exUtil (exTokenEnv 5 (Inr 3000000)) (exTokenArgs None)
          (Some ''0xb4124cEB3451635DAcedd11767f004d8a28c6eE7'') None (JBool True))) 1 exTokenWorldFactory
        of (r, tr) \<Rightarrow> (r, 0 # tr)) \<and>
   eth_getAccounts (exTokenEnv 1 (Inr 3000000)) = Inr [''0xb4124cEB3451635DAcedd11767f004d8a28c6eE7''] \<and>
   net_getId (exTokenEnv 1 (Inr 3000000)) = Inr 1 \<and>
   (\<exists>steps. token_task exUtil (exTokenEnv 1 (Inr 3000000)) (exTokenArgs None) = Inr steps \<and>
            \<not> enabled (steps ! 0) emptyTokenWorld) \<and>
   isAddress (exTokenEnv 1 (Inr 3000000)) (Some ''0x909d05f384d0663ed4be59863815ab43b4f347ec'') \<and>
   factoryAddress (tctx emptyTokenWorld) = None \<and>
   tokenArguments exUtil (exTokenArgs None) (Some ''0x909d05f384d0663ed4be59863815ab43b4f347ec'')
       (JBool True) (tctx emptyTokenWorld)
     = [JStr ''0x909d05f384d0663ed4be59863815ab43b4f347ec'',
        JStr ''0x0000000000000000000000000000000000000000'', JNum 0, JStr ''Member'', JNum 18,
        JStr ''MBR'', JBool True] \<and>
   run (token_tasks exUtil (exTokenEnv 1 (Inr 3000000)) (exTokenArgs None)
          (Some ''0xb4124cEB3451635DAcedd11767f004d8a28c6eE7'')
          (Some ''0x909d05f384d0663ed4be59863815ab43b4f347ec'') (JBool True)) emptyTokenWorld
     = runTasks (drop 1 (token_tasks exUtil (exTokenEnv 1 (Inr 3000000)) (exTokenArgs None)
          (Some ''0xb4124cEB3451635DAcedd11767f004d8a28c6eE7'')
          (Some ''0x909d05f384d0663ed4be59863815ab43b4f347ec'') (JBool True))) 1 emptyTokenWorld"
proof -
  let ?from = "Some ''0xb4124cEB3451635DAcedd11767f004d8a28c6eE7''"
  let ?main = "Some ''0x909d05f384d0663ed4be59863815ab43b4f347ec''"
  let ?e5 = "exTokenEnv 5 (Inr 3000000)"
  let ?e1 = "exTokenEnv 1 (Inr 3000000)"
  let ?fa = "''0x1902a0410EFe699487Dd85F12321aD672bE4ada2''"
  note t0 = token_factory_step_and_token_arguments
      [of exUtil ?e5 "exTokenArgs None" ?from None "JBool True" emptyTokenWorld
          "[''0xb4124cEB3451635DAcedd11767f004d8a28c6eE7'']" 5 emptyTokenWorld]
  note t5 = token_factory_step_and_token_arguments
      [of exUtil ?e5 "exTokenArgs None" ?from None "JBool True" exTokenWorldFactory
          "[''0xb4124cEB3451635DAcedd11767f004d8a28c6eE7'']" 5 emptyTokenWorld]
  note t1 = token_factory_step_and_token_arguments
      [of exUtil ?e1 "exTokenArgs None" ?from ?main "JBool True" emptyTokenWorld
          "[''0xb4124cEB3451635DAcedd11767f004d8a28c6eE7'']" 1 emptyTokenWorld]
  have a1: "\<not> isAddress ?e5 None" by (simp add: exTokenEnv_def)
  from t0 a1 have a2: "enabled (token_tasks exUtil ?e5 (exTokenArgs None) ?from None (JBool True) ! 0)
     emptyTokenWorld" by blast
  have a3: "deployFactory ?e5 ?from emptyTokenWorld = Completed exTokenWorldFactory"
    by (simp add: deployFactory_def deployAndSend_def exTokenEnv_def emptyTokenWorld_def
        emptyTokenContext_def exTokenWorldFactory_def)
  have a4: "factoryAddress (tctx exTokenWorldFactory) = Some ?fa"
    by (simp add: exTokenWorldFactory_def)
  from t5 a3 obtain a where a: "factoryAddress (tctx exTokenWorldFactory) = Some a"
    and args: "a \<noteq> [] \<longrightarrow> tokenArguments exUtil (exTokenArgs None) None (JBool True) (tctx exTokenWorldFactory)
        = [JStr a, JStr (ZERO_ADDRESS exUtil), JNum 0,
           JStr (tokenName (exTokenArgs None)), decimalUnits (exTokenArgs None),
           JStr (symbol (exTokenArgs None)), JBool True]"
    by blast
  from a a4 have "a = ?fa" by simp
  with args have a5: "tokenArguments exUtil (exTokenArgs None) None (JBool True) (tctx exTokenWorldFactory)
     = [JStr ''0x1902a0410EFe699487Dd85F12321aD672bE4ada2'',
        JStr ''0x0000000000000000000000000000000000000000'', JNum 0, JStr ''Member'', JNum 18,
        JStr ''MBR'', JBool True]"
    by (simp add: exUtil_def exTokenArgs_def)
  from t5 a1 have "run (token_tasks exUtil ?e5 (exTokenArgs None) ?from None (JBool True)) emptyTokenWorld =
        (case deployFactory ?e5 ?from emptyTokenWorld of
           Threw e w' \<Rightarrow> (Inl e, [0])
         | Completed w \<Rightarrow>
             (case runTasks (drop 1 (token_tasks exUtil ?e5 (exTokenArgs None) ?from None (JBool True))) 1 w of
                (r, tr) \<Rightarrow> (r, 0 # tr))
         | Skipped m w \<Rightarrow>
             (case runTasks (drop 1 (token_tasks exUtil ?e5 (exTokenArgs None) ?from None (JBool True))) 1 w of
                (r, tr) \<Rightarrow> (r, 0 # tr)))"
    by blast
  then have a6: "run (token_tasks exUtil ?e5 (exTokenArgs None) ?from None (JBool True)) emptyTokenWorld
     = (case runTasks (drop 1 (token_tasks exUtil ?e5 (exTokenArgs None) ?from None (JBool True))) 1
              exTokenWorldFactory
        of (r, tr) \<Rightarrow> (r, 0 # tr))"
    unfolding a3 by simp
  have g1: "eth_getAccounts ?e1 = Inr [''0xb4124cEB3451635DAcedd11767f004d8a28c6eE7'']"
    by (simp add: exTokenEnv_def)
  have g2: "net_getId ?e1 = Inr 1" by (simp add: exTokenEnv_def)
  have b1: "isAddress ?e1 ?main" by (simp add: exTokenEnv_def isHexDigit_def)
  have b0: "defaultTokenFactoryAddress 1 (tokenFactoryAddress (exTokenArgs None)) = ?main"
    by (simp add: defaultTokenFactoryAddress_def js_or_def truthy_def exTokenArgs_def
        MAINNET_MINIME_TOKEN_FACTORY_def)
  from t1 g1 g2 obtain steps where st: "token_task exUtil ?e1 (exTokenArgs None) = Inr steps"
    and en: "enabled (steps ! 0) emptyTokenWorld \<longleftrightarrow>
       \<not> isAddress ?e1 (defaultTokenFactoryAddress 1 (tokenFactoryAddress (exTokenArgs None)))"
    by blast
  from en b1 have "\<not> enabled (steps ! 0) emptyTokenWorld" unfolding b0 by simp
  with st have g3: "\<exists>steps. token_task exUtil ?e1 (exTokenArgs None) = Inr steps \<and>
            \<not> enabled (steps ! 0) emptyTokenWorld" by blast
  have b2: "factoryAddress (tctx emptyTokenWorld) = None"
    by (simp add: emptyTokenWorld_def emptyTokenContext_def)
  from t1 b2 have "tokenArguments exUtil (exTokenArgs None) ?main (JBool True) (tctx emptyTokenWorld)
        = [optStr ?main, JStr (ZERO_ADDRESS exUtil), JNum 0,
           JStr (tokenName (exTokenArgs None)), decimalUnits (exTokenArgs None),
           JStr (symbol (exTokenArgs None)), JBool True]"
    by blast
  then have b3: "tokenArguments exUtil (exTokenArgs None) ?main (JBool True) (tctx emptyTokenWorld)
     = [JStr ''0x909d05f384d0663ed4be59863815ab43b4f347ec'',
        JStr ''0x0000000000000000000000000000000000000000'', JNum 0, JStr ''Member'', JNum 18,
        JStr ''MBR'', JBool True]"
    by (simp add: exUtil_def exTokenArgs_def optStr_def)
  from t1 b1 have b4: "run (token_tasks exUtil ?e1 (exTokenArgs None) ?from ?main (JBool True)) emptyTokenWorld
     = runTasks (drop 1 (token_tasks exUtil ?e1 (exTokenArgs None) ?from ?main (JBool True))) 1 emptyTokenWorld"
    by blast
  show ?thesis by (intro conjI a1 a2 a3 a4 a5 a6 g1 g2 g3 b1 b2 b3 b4)
qed

section \<open>Comparing addresses\<close>

lemma lowerChar_idem: "lowerChar (lowerChar c) = lowerChar c"
  unfolding lowerChar_def by (simp split: if_splits)

lemma toLowerCase_idem: "toLowerCase (toLowerCase s) = toLowerCase s"
  by (simp add: toLowerCase_def lowerChar_idem)

text \<open>
  Claim C10. \<^verbatim>\<open>addressesEqual\<close> compares the lower-cased operands, so an address equals
  its lower-case form; the installed-version step, past the zero check, completes or
  throws according to that comparison, and a log is the deploy log according to it;
  the zero check itself is plain string equality with \<^verbatim>\<open>ZERO_ADDRESS\<close>.
\<close>

theorem address_comparisons_ignore_case_but_zero_check_is_strict:
  assumes "APP_BASES_NAMESPACE env = Inr ns" "repo (ctx w) = Some r"
    "getApp env ns (appId r) = Inr currentBase"
  shows "(addressesEqual a b \<longleftrightarrow> toLowerCase a = toLowerCase b) \<and>
         addressesEqual a (toLowerCase a) \<and>
         ((\<exists>m w'. checkInstalledVersion u env args w = Skipped m w') \<longleftrightarrow> currentBase = ZERO_ADDRESS u) \<and>
         (currentBase \<noteq> ZERO_ADDRESS u \<longrightarrow>
            (checkInstalledVersion u env args w = Completed w
               \<longleftrightarrow> toLowerCase currentBase = toLowerCase (contractAddress r)) \<and>
            ((\<exists>e w'. checkInstalledVersion u env args w = Threw e w')
               \<longleftrightarrow> toLowerCase currentBase \<noteq> toLowerCase (contractAddress r))) \<and>
         (isDeployLog logTopic dao l \<longleftrightarrow>
            firstTopicIs (topics l) logTopic \<and> toLowerCase dao = toLowerCase (address l))"
  unfolding checkInstalledVersion_resolved[OF assms]
  by (simp add: addressesEqual_def toLowerCase_idem isDeployLog_def)

theorem address_comparisons_ignore_case_but_zero_check_is_strict_witness:
  "APP_BASES_NAMESPACE (exEnv ''0xB4FA71B3352D48AA93D34D085F87BB4AF0CE6AB5'' (Some exRoles) (Inr []))
     = Inr ''0xf1f3eb40f5bc1ad1344716ced8b8a0431d840b5783aea1fd01786bc26f35ac0f'' \<and>
   repo (ctx (exWorldRepo (Some exRoles))) = Some (exRepo (Some exRoles)) \<and>
   getApp (exEnv ''0xB4FA71B3352D48AA93D34D085F87BB4AF0CE6AB5'' (Some exRoles) (Inr []))
     ''0xf1f3eb40f5bc1ad1344716ced8b8a0431d840b5783aea1fd01786bc26f35ac0f''
     (appId (exRepo (Some exRoles))) = Inr ''0xB4FA71B3352D48AA93D34D085F87BB4AF0CE6AB5'' \<and>
   ''0xB4FA71B3352D48AA93D34D085F87BB4AF0CE6AB5'' \<noteq> ZERO_ADDRESS exUtil \<and>
   ''0xB4FA71B3352D48AA93D34D085F87BB4AF0CE6AB5'' \<noteq> contractAddress (exRepo (Some exRoles)) \<and>
   checkInstalledVersion exUtil
     (exEnv ''0xB4FA71B3352D48AA93D34D085F87BB4AF0CE6AB5'' (Some exRoles) (Inr [])) exArgs
     (exWorldRepo (Some exRoles)) = Completed (exWorldRepo (Some exRoles)) \<and>
   getApp (exEnv ''0X0000000000000000000000000000000000000000'' (Some exRoles) (Inr []))
     ''0xf1f3eb40f5bc1ad1344716ced8b8a0431d840b5783aea1fd01786bc26f35ac0f''
     (appId (exRepo (Some exRoles))) = Inr ''0X0000000000000000000000000000000000000000'' \<and>
   toLowerCase ''0X0000000000000000000000000000000000000000'' = toLowerCase (ZERO_ADDRESS exUtil) \<and>
   \<not> (\<exists>m w'. checkInstalledVersion exUtil
     (exEnv ''0X0000000000000000000000000000000000000000'' (Some exRoles) (Inr [])) exArgs
     (exWorldRepo (Some exRoles)) = Skipped m w') \<and>
   exDao \<noteq> address (logs exReceipt ! 1) \<and>
   isDeployLog ''sha3:NewAppProxy(address,bool,bytes32)'' exDao (logs exReceipt ! 1)"
proof -
  let ?topic = "''sha3:NewAppProxy(address,bool,bytes32)''"
  let ?l = "logs exReceipt ! 1"
  let ?up = "''0xB4FA71B3352D48AA93D34D085F87BB4AF0CE6AB5''"
  let ?zx = "''0X0000000000000000000000000000000000000000''"
  let ?ns = "''0xf1f3eb40f5bc1ad1344716ced8b8a0431d840b5783aea1fd01786bc26f35ac0f''"
  let ?env1 = "exEnv ?up (Some exRoles) (Inr [])"
  let ?env2 = "exEnv ?zx (Some exRoles) (Inr [])"
  let ?w = "exWorldRepo (Some exRoles)"
  have h1: "APP_BASES_NAMESPACE ?env1 = Inr ?ns" by (simp add: exEnv_def)
  have h1': "APP_BASES_NAMESPACE ?env2 = Inr ?ns" by (simp add: exEnv_def)
  have h2: "repo (ctx ?w) = Some (exRepo (Some exRoles))"
    by (simp add: exWorldRepo_def emptyWorld_def emptyContext_def)
  have h3: "getApp ?env1 ?ns (appId (exRepo (Some exRoles))) = Inr ?up" by (simp add: exEnv_def)
  have h3': "getApp ?env2 ?ns (appId (exRepo (Some exRoles))) = Inr ?zx" by (simp add: exEnv_def)
  have n1: "?up \<noteq> ZERO_ADDRESS exUtil" by (simp add: exUtil_def)
  have n2: "?up \<noteq> contractAddress (exRepo (Some exRoles))" by (simp add: exRepo_def)
  have l1: "toLowerCase ?up = toLowerCase (contractAddress (exRepo (Some exRoles)))"
    by (simp add: exRepo_def toLowerCase_def lowerChar_def)
  have z1: "?zx \<noteq> ZERO_ADDRESS exUtil" by (simp add: exUtil_def)
  have z2: "toLowerCase ?zx = toLowerCase (ZERO_ADDRESS exUtil)"
    by (simp add: exUtil_def toLowerCase_def lowerChar_def)
  note t1 = address_comparisons_ignore_case_but_zero_check_is_strict[OF h1 h2 h3, of ?up ?up exUtil exArgs ?topic exDao ?l]
  note t2 = address_comparisons_ignore_case_but_zero_check_is_strict[OF h1' h2 h3', of ?up ?up exUtil exArgs ?topic exDao ?l]
  from t1 n1 l1 have c1: "checkInstalledVersion exUtil ?env1 exArgs ?w = Completed ?w" by blast
  from t2 z1 have c2: "\<not> (\<exists>m w'. checkInstalledVersion exUtil ?env2 exArgs ?w = Skipped m w')" by blast
  have d1: "exDao \<noteq> address ?l" by (simp add: exDao_def exReceipt_def)
  have d2: "firstTopicIs (topics ?l) ?topic \<and> toLowerCase exDao = toLowerCase (address ?l)"
    by (simp add: exDao_def exReceipt_def firstTopicIs_def toLowerCase_def lowerChar_def)
  from t1 d2 have c3: "isDeployLog ?topic exDao ?l" by blast
  show ?thesis by (intro conjI h1 h2 h3 n1 n2 c1 h3' z2 c2 d1 c3)
qed

end
